theory Spec2Isabelle
  imports Complex_Main "HOL-Library.Sublist"
begin


section \<open>Python values shared by the modules\<close>

text \<open>
  Exceptions that the modelled code can raise. A function that may raise returns
  \<open>py_error + 'a\<close>, with \<open>Inl\<close> for the exception.
\<close>

datatype py_error =
    ZeroDivisionError
  | ValueError string
  | AssertionError string
  | OSError string
  | OtherError string

text \<open>
  A Python \<open>float\<close> is an IEEE double; every finite double is a rational number, so
  a float value is a \<open>rat\<close>. The result of an arithmetic operation is the exact
  result rounded to a double; the rounding is the parameter \<open>rnd\<close> of every
  function that computes with floats. Two facts about rounding to the nearest double
  are used, each only where a theorem names it as a hypothesis. A multiple of
  \<open>2^-1074\<close> with a numerator below \<open>2^53\<close> is a double and is returned unchanged
  (\<open>exact_on_dyadics\<close>). Zero is returned unchanged, and in the normal range, from
  \<open>2^-1022\<close> to \<open>2^1023\<close>, the relative error of a rounding is at most \<open>2^-53\<close>
  (\<open>rel_accurate\<close>).
\<close>

type_synonym pyfloat = rat

definition exact_on_dyadics :: "(rat \<Rightarrow> rat) \<Rightarrow> bool" where
  "exact_on_dyadics rnd =
     (\<forall>m k. \<bar>m\<bar> < (2::int) ^ 53 \<and> k \<le> 1074 \<longrightarrow>
            rnd (of_int m / 2 ^ k) = of_int m / 2 ^ k)"

definition rel_accurate :: "(rat \<Rightarrow> rat) \<Rightarrow> bool" where
  "rel_accurate rnd =
     (rnd 0 = 0 \<and>
      (\<forall>x. 1 / 2 ^ 1022 \<le> \<bar>x\<bar> \<and> \<bar>x\<bar> \<le> 2 ^ 1023 \<longrightarrow> \<bar>rnd x - x\<bar> \<le> \<bar>x\<bar> / 2 ^ 53))"

text \<open>
  A rounding for evaluating examples: it returns the double nearest to 1/3 and the
  double nearest to 100 times that double, as Python computes \<open>1 / 3\<close> and
  \<open>1 / 3 * 100\<close>, and any other number unchanged.
\<close>

definition rnd_example :: "rat \<Rightarrow> rat" where
  "rnd_example x =
     (if x = 1 / 3 then 6004799503160661 / 18014398509481984
      else if x = 6004799503160661 / 18014398509481984 * 100
      then 2345624805922133 / 70368744177664
      else x)"

text \<open>\<open>a / b\<close> on numbers: raises on a zero divisor, else the rounded quotient.\<close>

definition truediv :: "(rat \<Rightarrow> rat) \<Rightarrow> rat \<Rightarrow> rat \<Rightarrow> py_error + pyfloat" where
  "truediv rnd a b = (if b = 0 then Inl ZeroDivisionError else Inr (rnd (a / b)))"

text \<open>\<open>sum(times)\<close>: starts at 0 and adds from the left, rounding each addition.\<close>

definition py_sum :: "(rat \<Rightarrow> rat) \<Rightarrow> pyfloat list \<Rightarrow> pyfloat" where
  "py_sum rnd ts = foldl (\<lambda>a t. rnd (a + t)) 0 ts"

text \<open>
  A \<open>dict\<close> keeps its keys in insertion order: an association list with distinct keys.
  \<open>d[k] = v\<close> replaces the value in place when the key is there and appends the
  pair otherwise; \<open>d.get(k, dflt)\<close> looks a key up.
\<close>

fun dict_set :: "'k \<Rightarrow> 'v \<Rightarrow> ('k \<times> 'v) list \<Rightarrow> ('k \<times> 'v) list" where
  "dict_set k v [] = [(k, v)]"
| "dict_set k v ((k', v') # d) =
     (if k' = k then (k', v) # d else (k', v') # dict_set k v d)"

definition dict_get :: "('k \<times> 'v) list \<Rightarrow> 'k \<Rightarrow> 'v \<Rightarrow> 'v" where
  "dict_get d k dflt = (case map_of d k of None \<Rightarrow> dflt | Some v \<Rightarrow> v)"

definition dict_has :: "'k \<Rightarrow> ('k \<times> 'v) list \<Rightarrow> bool" where
  "dict_has k d = (k \<in> fst ` set d)"


section \<open>reporting.py: TestResult and MetricsCollector\<close>

text \<open>
  \<open>timestamp\<close> is a \<open>datetime\<close>; the code only ever calls \<open>isoformat()\<close> on it, so
  the field holds a value of a type parameter and \<open>isoformat\<close> is passed where it
  is called.
\<close>

record 'ts TestResult =
  test_name :: string
  test_class :: string
  status :: string
  execution_time :: pyfloat
  timestamp :: 'ts
  endpoint :: string
  http_method :: string
  response_code :: "int option"
  error_message :: "string option"
  request_headers :: "(string \<times> string) list option"
  response_headers :: "(string \<times> string) list option"
  validation_errors :: "string list option"

record MetricsCollector =
  total_tests :: int
  passed_tests :: int
  failed_tests :: int
  error_tests :: int
  total_execution_time :: pyfloat
  response_times :: "(string \<times> pyfloat list) list"
  status_codes :: "(int \<times> int) list"

text \<open>\<open>MetricsCollector.__init__\<close>\<close>

definition MetricsCollector_init :: MetricsCollector where
  "MetricsCollector_init =
     \<lparr>total_tests = 0, passed_tests = 0, failed_tests = 0, error_tests = 0,
      total_execution_time = 0, response_times = [], status_codes = []\<rparr>"

text \<open>
  \<open>MetricsCollector.add_result\<close>, statement by statement. \<open>if result.response_code:\<close>
  is false for \<open>None\<close> and for the code 0.
\<close>

definition count_status :: "string \<Rightarrow> MetricsCollector \<Rightarrow> MetricsCollector" where
  "count_status s m =
     (if s = ''SUCCESS'' then m\<lparr>passed_tests := passed_tests m + 1\<rparr>
      else if s = ''FAILED'' then m\<lparr>failed_tests := failed_tests m + 1\<rparr>
      else m\<lparr>error_tests := error_tests m + 1\<rparr>)"

definition record_time :: "string \<Rightarrow> pyfloat \<Rightarrow> MetricsCollector \<Rightarrow> MetricsCollector" where
  "record_time endpoint_key t m =
     (let rt = (if \<not> dict_has endpoint_key (response_times m)
                then dict_set endpoint_key [] (response_times m)
                else response_times m)
      in m\<lparr>response_times := dict_set endpoint_key (dict_get rt endpoint_key [] @ [t]) rt\<rparr>)"

definition record_code :: "int option \<Rightarrow> MetricsCollector \<Rightarrow> MetricsCollector" where
  "record_code rc m =
     (case rc of
        None \<Rightarrow> m
      | Some c \<Rightarrow>
          if c = 0 then m
          else m\<lparr>status_codes := dict_set c (dict_get (status_codes m) c 0 + 1) (status_codes m)\<rparr>)"

definition add_result ::
  "(rat \<Rightarrow> rat) \<Rightarrow> 'ts TestResult \<Rightarrow> MetricsCollector \<Rightarrow> MetricsCollector" where
  "add_result rnd result m =
     (let m1 = m\<lparr>total_tests := total_tests m + 1\<rparr>;
          m2 = m1\<lparr>total_execution_time :=
                     rnd (total_execution_time m1 + execution_time result)\<rparr>;
          m3 = count_status (status result) m2;
          endpoint_key = http_method result @ '' '' @ endpoint result;
          m4 = record_time endpoint_key (execution_time result) m3
      in record_code (response_code result) m4)"

text \<open>The dictionary \<open>get_metrics\<close> returns, one field per key.\<close>

record Metrics =
  m_total_tests :: int
  m_passed_tests :: int
  m_failed_tests :: int
  m_error_tests :: int
  m_success_rate :: pyfloat
  m_total_execution_time :: pyfloat
  m_average_response_times :: "(string \<times> pyfloat) list"
  m_status_code_distribution :: "(int \<times> int) list"

text \<open>
  The \<open>success_rate\<close> expression:
  \<open>(passed_tests / total_tests * 100) if total_tests > 0 else 0\<close>.
\<close>

definition success_rate :: "(rat \<Rightarrow> rat) \<Rightarrow> MetricsCollector \<Rightarrow> py_error + pyfloat" where
  "success_rate rnd m =
     (if total_tests m > 0
      then (case truediv rnd (of_int (passed_tests m)) (of_int (total_tests m)) of
              Inl e \<Rightarrow> Inl e
            | Inr q \<Rightarrow> Inr (rnd (q * 100)))
      else Inr 0)"

text \<open>
  The comprehension \<open>{endpoint: sum(times) / len(times) for ...}\<close>; the first
  division that raises ends it.
\<close>

fun average_response_times ::
  "(rat \<Rightarrow> rat) \<Rightarrow> (string \<times> pyfloat list) list \<Rightarrow> py_error + (string \<times> pyfloat) list" where
  "average_response_times rnd [] = Inr []"
| "average_response_times rnd ((ep, ts) # rest) =
     (case truediv rnd (py_sum rnd ts) (of_nat (length ts)) of
        Inl e \<Rightarrow> Inl e
      | Inr avg \<Rightarrow>
          (case average_response_times rnd rest of
             Inl e \<Rightarrow> Inl e
           | Inr avgs \<Rightarrow> Inr ((ep, avg) # avgs)))"

definition get_metrics :: "(rat \<Rightarrow> rat) \<Rightarrow> MetricsCollector \<Rightarrow> py_error + Metrics" where
  "get_metrics rnd m =
     (case success_rate rnd m of
        Inl e \<Rightarrow> Inl e
      | Inr sr \<Rightarrow>
          (case average_response_times rnd (response_times m) of
             Inl e \<Rightarrow> Inl e
           | Inr avgs \<Rightarrow>
               Inr \<lparr>m_total_tests = total_tests m,
                    m_passed_tests = passed_tests m,
                    m_failed_tests = failed_tests m,
                    m_error_tests = error_tests m,
                    m_success_rate = sr,
                    m_total_execution_time = total_execution_time m,
                    m_average_response_times = avgs,
                    m_status_code_distribution = status_codes m\<rparr>))"


section \<open>The background worker: a queue, a stop event and a consumer loop\<close>

text \<open>
  \<open>APILogger\<close> and \<open>ReportGenerator\<close> each own a \<open>Queue\<close>, a \<open>threading.Event\<close> and a
  thread running the same loop:
  \<^verbatim>\<open>
  while not self._stop_event.is_set() or not self._queue.empty():
      try:
          item = self._queue.get(timeout=1.0)
          <handle item>
          self._queue.task_done()
      except Exception:
          continue
  \<close>
  \<open>target\<close> is what the loop body writes: the report generator's results and metrics,
  or the file system of the log writer. One pass through the loop body either takes the
  head of the queue and handles it, or finds the queue empty, times out and continues.
\<close>

record ('a, 's) worker =
  queue :: "'a list"
  stop_event :: bool
  target :: 's

definition worker_init :: "'s \<Rightarrow> ('a, 's) worker" where
  "worker_init t = \<lparr>queue = [], stop_event = False, target = t\<rparr>"

definition put :: "'a \<Rightarrow> ('a, 's) worker \<Rightarrow> ('a, 's) worker" where
  "put x w = w\<lparr>queue := queue w @ [x]\<rparr>"

definition loop_condition :: "('a, 's) worker \<Rightarrow> bool" where
  "loop_condition w = (\<not> stop_event w \<or> queue w \<noteq> [])"

definition loop_body :: "('a \<Rightarrow> 's \<Rightarrow> 's) \<Rightarrow> ('a, 's) worker \<Rightarrow> ('a, 's) worker" where
  "loop_body handle w =
     (case queue w of
        [] \<Rightarrow> w
      | x # q \<Rightarrow> w\<lparr>queue := q, target := handle x (target w)\<rparr>)"

text \<open>
  The loop, run with no other thread interfering. It need not return (stop event
  clear, queue empty, nobody to set the event): not returning is the value \<open>None\<close>.
\<close>

partial_function (option) consumer_loop ::
  "('a \<Rightarrow> 's \<Rightarrow> 's) \<Rightarrow> ('a, 's) worker \<Rightarrow> ('a, 's) worker option" where
  "consumer_loop handle w =
     (if loop_condition w then consumer_loop handle (loop_body handle w) else Some w)"

text \<open>
  While the owner is alive, producers and the consumer thread interleave. A schedule
  lists, in the order they take effect, the \<open>put\<close> calls of the producers and the
  passes of the consumer thread through its loop.
\<close>

datatype 'a event = Put 'a | Pass

fun interleave ::
  "('a \<Rightarrow> 's \<Rightarrow> 's) \<Rightarrow> 'a event list \<Rightarrow> ('a, 's) worker \<Rightarrow> ('a, 's) worker" where
  "interleave handle [] w = w"
| "interleave handle (Put x # es) w = interleave handle es (put x w)"
| "interleave handle (Pass # es) w =
     interleave handle es (if loop_condition w then loop_body handle w else w)"

fun puts :: "'a event list \<Rightarrow> 'a list" where
  "puts [] = []"
| "puts (Put x # es) = x # puts es"
| "puts (Pass # es) = puts es"


section \<open>reporting.py: ReportGenerator\<close>

record 'ts ReportGenerator =
  output_dir :: string
  results :: "'ts TestResult list"
  metrics :: MetricsCollector

definition ReportGenerator_init :: "string \<Rightarrow> 'ts ReportGenerator" where
  "ReportGenerator_init dir =
     \<lparr>output_dir = dir, results = [], metrics = MetricsCollector_init\<rparr>"

text \<open>
  The body of \<open>_process_queue\<close> for one dequeued result:
  \<open>self.results.append(result); self.metrics.add_result(result)\<close>.
\<close>

definition process_result ::
  "(rat \<Rightarrow> rat) \<Rightarrow> 'ts TestResult \<Rightarrow> 'ts ReportGenerator \<Rightarrow> 'ts ReportGenerator" where
  "process_result rnd result g =
     g\<lparr>results := results g @ [result], metrics := add_result rnd result (metrics g)\<rparr>"

definition process_queue ::
  "(rat \<Rightarrow> rat) \<Rightarrow> ('ts TestResult, 'ts ReportGenerator) worker
     \<Rightarrow> ('ts TestResult, 'ts ReportGenerator) worker option" where
  "process_queue rnd = consumer_loop (process_result rnd)"

text \<open>
  \<open>ReportGenerator.__del__\<close>: \<open>self._stop_event.set()\<close>, then \<open>join()\<close> waits
  for \<open>_process_queue\<close> to return.
\<close>

definition ReportGenerator_del ::
  "(rat \<Rightarrow> rat) \<Rightarrow> ('ts TestResult, 'ts ReportGenerator) worker
     \<Rightarrow> ('ts TestResult, 'ts ReportGenerator) worker option" where
  "ReportGenerator_del rnd w = process_queue rnd (w\<lparr>stop_event := True\<rparr>)"


section \<open>The operating system as the code uses it\<close>

text \<open>
  Files hold a list of elements: the characters of a text file, or the rows of a CSV
  file. \<open>dirs\<close> are the directories that exist and \<open>stdout\<close> the lines printed so
  far. Each operation has the outcomes the code can meet: \<open>os.makedirs\<close> of the empty
  path raises \<open>FileNotFoundError\<close>, of a path that is a file \<open>FileExistsError\<close>;
  \<open>open\<close> of a directory raises \<open>IsADirectoryError\<close>, of a path whose parent is
  missing \<open>FileNotFoundError\<close>. All of them are \<open>OSError\<close>, which \<open>IOError\<close> names too.
\<close>

record 'e os_state =
  files :: "string \<rightharpoonup> 'e list"
  dirs :: "string set"
  stdout :: "string list"

definition print :: "string \<Rightarrow> 'e os_state \<Rightarrow> 'e os_state" where
  "print line s = s\<lparr>stdout := stdout s @ [line]\<rparr>"

text \<open>
  \<open>os.path.dirname\<close>: everything up to the last slash, without trailing slashes
  unless it consists of slashes only.
\<close>

definition dirname :: "string \<Rightarrow> string" where
  "dirname p =
     (let head = rev (dropWhile (\<lambda>c. c \<noteq> CHR ''/'') (rev p))
      in if head \<noteq> [] \<and> \<not> list_all (\<lambda>c. c = CHR ''/'') head
         then rev (dropWhile (\<lambda>c. c = CHR ''/'') (rev head))
         else head)"

text \<open>\<open>os.path.join(a, b)\<close> for two components.\<close>

definition path_join :: "string \<Rightarrow> string \<Rightarrow> string" where
  "path_join a b =
     (if b \<noteq> [] \<and> hd b = CHR ''/'' then b
      else if a = [] \<or> last a = CHR ''/'' then a @ b
      else a @ ''/'' @ b)"

definition makedirs :: "string \<Rightarrow> 'e os_state \<Rightarrow> py_error + 'e os_state" where
  "makedirs name s =
     (if name = [] then Inl (OSError ''[Errno 2] No such file or directory'')
      else if name \<in> dom (files s) then Inl (OSError ''[Errno 17] File exists'')
      else Inr (s\<lparr>dirs := insert name (dirs s)\<rparr>))"

definition open_check :: "string \<Rightarrow> 'e os_state \<Rightarrow> py_error option" where
  "open_check path s =
     (if path \<in> dirs s then Some (OSError ''[Errno 21] Is a directory'')
      else if dirname path \<noteq> [] \<and> dirname path \<notin> dirs s
      then Some (OSError ''[Errno 2] No such file or directory'')
      else None)"

text \<open>\<open>open(path, 'a')\<close>, one \<open>write\<close>, and the close.\<close>

definition append_file :: "string \<Rightarrow> 'e list \<Rightarrow> 'e os_state \<Rightarrow> py_error + 'e os_state" where
  "append_file path data s =
     (case open_check path s of
        Some e \<Rightarrow> Inl e
      | None \<Rightarrow>
          Inr (s\<lparr>files := (files s)(path \<mapsto>
                 (case files s path of None \<Rightarrow> [] | Some old \<Rightarrow> old) @ data)\<rparr>))"

text \<open>\<open>open(path, 'w')\<close>: the file is created, or emptied when it exists.\<close>

definition open_truncate :: "string \<Rightarrow> 'e os_state \<Rightarrow> py_error + 'e os_state" where
  "open_truncate path s =
     (case open_check path s of
        Some e \<Rightarrow> Inl e
      | None \<Rightarrow> Inr (s\<lparr>files := (files s)(path \<mapsto> [])\<rparr>))"


section \<open>reporting.py: export_csv\<close>

text \<open>
  \<open>dataclasses.asdict(result)\<close> is a dict with one key per field of the dataclass, all
  twelve of them, a field that is \<open>None\<close> included. A value is a cell of the row.
\<close>

datatype 'ts cell =
    CNone
  | CStr string
  | CInt int
  | CFloat pyfloat
  | CDatetime 'ts
  | CDict "(string \<times> string) list"
  | CList "string list"

definition opt_cell :: "('a \<Rightarrow> 'ts cell) \<Rightarrow> 'a option \<Rightarrow> 'ts cell" where
  "opt_cell f v = (case v of None \<Rightarrow> CNone | Some x \<Rightarrow> f x)"

definition asdict :: "'ts TestResult \<Rightarrow> (string \<times> 'ts cell) list" where
  "asdict r =
     [(''test_name'', CStr (test_name r)),
      (''test_class'', CStr (test_class r)),
      (''status'', CStr (status r)),
      (''execution_time'', CFloat (execution_time r)),
      (''timestamp'', CDatetime (timestamp r)),
      (''endpoint'', CStr (endpoint r)),
      (''method'', CStr (http_method r)),
      (''response_code'', opt_cell CInt (response_code r)),
      (''error_message'', opt_cell CStr (error_message r)),
      (''request_headers'', opt_cell CDict (request_headers r)),
      (''response_headers'', opt_cell CDict (response_headers r)),
      (''validation_errors'', opt_cell CList (validation_errors r))]"

definition fieldnames :: "string list" where
  "fieldnames =
     [''test_name'', ''test_class'', ''status'',
      ''execution_time'', ''timestamp'', ''endpoint'',
      ''method'', ''response_code'', ''error_message'']"

text \<open>
  \<open>csv.DictWriter\<close> with its defaults \<open>restval=""\<close> and \<open>extrasaction="raise"\<close>:
  \<open>writerow\<close> raises \<open>ValueError\<close> when the row has a key that is no field name, and
  otherwise writes the values of the field names in their order. A CSV file is the
  list of the rows written, each the list of its cells; how a cell is printed and
  quoted is the csv module's business.
\<close>

definition dict_to_list ::
  "string list \<Rightarrow> (string \<times> 'ts cell) list \<Rightarrow> py_error + 'ts cell list" where
  "dict_to_list names rowdict =
     (let wrong_fields = filter (\<lambda>k. k \<notin> set names) (map fst rowdict)
      in if wrong_fields \<noteq> []
         then Inl (ValueError ''dict contains fields not in fieldnames'')
         else Inr (map (\<lambda>key. dict_get rowdict key (CStr [])) names))"

definition writerow ::
  "string \<Rightarrow> string list \<Rightarrow> (string \<times> 'ts cell) list \<Rightarrow> 'ts cell list os_state
     \<Rightarrow> py_error + 'ts cell list os_state" where
  "writerow path names rowdict s =
     (case dict_to_list names rowdict of
        Inl e \<Rightarrow> Inl e
      | Inr cells \<Rightarrow> append_file path [cells] s)"

definition writeheader ::
  "string \<Rightarrow> string list \<Rightarrow> 'ts cell list os_state \<Rightarrow> py_error + 'ts cell list os_state" where
  "writeheader path names s = writerow path names (map (\<lambda>n. (n, CStr n)) names) s"

text \<open>
  The loop of \<open>export_csv\<close> over \<open>self.results\<close>; the state comes back with the
  exception, since the \<open>with\<close> statement closes the file either way.
\<close>

fun write_results ::
  "('ts \<Rightarrow> string) \<Rightarrow> string \<Rightarrow> 'ts TestResult list \<Rightarrow> 'ts cell list os_state
     \<Rightarrow> py_error option \<times> 'ts cell list os_state" where
  "write_results isoformat path [] s = (None, s)"
| "write_results isoformat path (result # rest) s =
     (let row = asdict result;
          row = dict_set ''timestamp'' (CStr (isoformat (timestamp result))) row
      in case writerow path fieldnames row s of
           Inl e \<Rightarrow> (Some e, s)
         | Inr s' \<Rightarrow> write_results isoformat path rest s')"

definition export_csv ::
  "('ts \<Rightarrow> string) \<Rightarrow> 'ts ReportGenerator \<Rightarrow> string \<Rightarrow> 'ts cell list os_state
     \<Rightarrow> (py_error + string) \<times> 'ts cell list os_state" where
  "export_csv isoformat g filename s =
     (case makedirs (output_dir g) s of
        Inl e \<Rightarrow> (Inl e, s)
      | Inr s1 \<Rightarrow>
          let filepath = path_join (output_dir g) filename
          in case open_truncate filepath s1 of
               Inl e \<Rightarrow> (Inl e, s1)
             | Inr s2 \<Rightarrow>
                 (case writeheader filepath fieldnames s2 of
                    Inl e \<Rightarrow> (Inl e, s2)
                  | Inr s3 \<Rightarrow>
                      (case write_results isoformat filepath (results g) s3 of
                         (Some e, s4) \<Rightarrow> (Inl e, s4)
                       | (None, s4) \<Rightarrow> (Inr filepath, s4))))"


section \<open>logger.py: the log writer\<close>

definition newline :: string where
  "newline = [CHR 0x0A]"

text \<open>
  \<open>APILogger._write_to_file\<close>. An \<open>IOError\<close> is printed; \<open>_log_writer\<close> swallows any
  other exception and continues.
\<close>

definition report_io_error :: "py_error \<Rightarrow> 'e os_state \<Rightarrow> 'e os_state" where
  "report_io_error e s =
     (case e of OSError msg \<Rightarrow> print (''Error writing to log file: '' @ msg) s | _ \<Rightarrow> s)"

definition write_to_file :: "string \<Rightarrow> string \<Rightarrow> char os_state \<Rightarrow> char os_state" where
  "write_to_file log_file content s =
     (case makedirs (dirname log_file) s of
        Inl e \<Rightarrow> report_io_error e s
      | Inr s1 \<Rightarrow>
          (case append_file log_file (content @ newline) s1 of
             Inl e \<Rightarrow> report_io_error e s1
           | Inr s2 \<Rightarrow> s2))"

definition log_writer ::
  "string \<Rightarrow> (string, char os_state) worker \<Rightarrow> (string, char os_state) worker option" where
  "log_writer log_file = consumer_loop (write_to_file log_file)"

text \<open>\<open>APILogger.__del__\<close>: set the stop event, then join the writer thread.\<close>

definition APILogger_del ::
  "string \<Rightarrow> (string, char os_state) worker \<Rightarrow> (string, char os_state) worker option" where
  "APILogger_del log_file w = log_writer log_file (w\<lparr>stop_event := True\<rparr>)"

text \<open>
  Every endpoint key of \<open>response_times\<close> holds at least one duration: the invariant
  under which \<open>get_metrics\<close> divides by no zero length.
\<close>

definition times_nonempty :: "MetricsCollector \<Rightarrow> bool" where
  "times_nonempty m = (\<forall>(k, ts) \<in> set (response_times m). ts \<noteq> [])"



section \<open>logger.py: formatting and masking\<close>

text \<open>
  Strings are ASCII text. \<open>str.lower\<close> maps the letters A to Z to a to z.
\<close>

definition lower_char :: "char \<Rightarrow> char" where
  "lower_char c =
     (case map_of (zip ''ABCDEFGHIJKLMNOPQRSTUVWXYZ'' ''abcdefghijklmnopqrstuvwxyz'') c of
        None \<Rightarrow> c
      | Some l \<Rightarrow> l)"

definition lower :: "string \<Rightarrow> string" where
  "lower s = map lower_char s"

text \<open>\<open>sep.join(parts)\<close>\<close>

fun str_join :: "string \<Rightarrow> string list \<Rightarrow> string" where
  "str_join sep [] = []"
| "str_join sep [x] = x"
| "str_join sep (x # y # ys) = x @ sep @ str_join sep (y # ys)"

text \<open>\<open>str(n)\<close> of an integer.\<close>

definition digit_char :: "nat \<Rightarrow> char" where
  "digit_char d = ''0123456789'' ! d"

function str_of_nat :: "nat \<Rightarrow> string" where
  "str_of_nat n = (if n < 10 then [digit_char n] else str_of_nat (n div 10) @ [digit_char (n mod 10)])"
  by pat_completeness auto
termination
  by (relation "measure id") auto

declare str_of_nat.simps [simp del]

definition str_of_int :: "int \<Rightarrow> string" where
  "str_of_int i = (if i < 0 then ''-'' @ str_of_nat (nat (- i)) else str_of_nat (nat i))"

text \<open>\<open>APILogger._format_headers\<close>\<close>

definition sensitive_header :: "string \<Rightarrow> bool" where
  "sensitive_header key = (lower key \<in> {''authorization'', ''cookie'', ''x-api-key''})"

definition format_header :: "string \<times> string \<Rightarrow> string" where
  "format_header kv =
     (let key = fst kv;
          v = (if sensitive_header key then ''*****'' else snd kv)
      in key @ '': '' @ v)"

definition format_headers :: "(string \<times> string) list \<Rightarrow> string" where
  "format_headers headers = str_join newline (map format_header headers)"

text \<open>
  A body is \<open>None\<close>, a boolean, an integer, a string, a list or a dict with string
  keys, nested at will: what \<open>json.dumps\<close> accepts, floats left out.
\<close>

datatype json =
    JNone
  | JBool bool
  | JInt int
  | JStr string
  | JList "json list"
  | JDict "(string \<times> json) list"

text \<open>The truth value of a body, as \<open>if body:\<close> and \<open>not body\<close> take it.\<close>

fun truthy :: "json \<Rightarrow> bool" where
  "truthy JNone = False"
| "truthy (JBool b) = b"
| "truthy (JInt n) = (n \<noteq> 0)"
| "truthy (JStr s) = (s \<noteq> [])"
| "truthy (JList xs) = (xs \<noteq> [])"
| "truthy (JDict d) = (d \<noteq> [])"

text \<open>
  \<open>json.dumps(body, indent=2)\<close>. A string is quoted and escaped as with
  \<open>ensure_ascii\<close>; items are separated by a comma and a new line indented two
  spaces per level; an empty list or dict is printed on one line.
\<close>

definition hex_digit :: "nat \<Rightarrow> char" where
  "hex_digit d = ''0123456789abcdef'' ! d"

definition escape_char :: "char \<Rightarrow> string" where
  "escape_char c =
     (let n = (of_char c :: nat) in
      if n = 0x22 then [CHR 0x5C, CHR 0x22]
      else if n = 0x5C then [CHR 0x5C, CHR 0x5C]
      else if n = 0x0A then [CHR 0x5C, CHR ''n'']
      else if n = 0x0D then [CHR 0x5C, CHR ''r'']
      else if n = 0x09 then [CHR 0x5C, CHR ''t'']
      else if n = 0x08 then [CHR 0x5C, CHR ''b'']
      else if n = 0x0C then [CHR 0x5C, CHR ''f'']
      else if n < 0x20 \<or> 0x7E < n
      then [CHR 0x5C, CHR ''u'', CHR ''0'', CHR ''0'', hex_digit (n div 16), hex_digit (n mod 16)]
      else [c])"

definition encode_string :: "string \<Rightarrow> string" where
  "encode_string s = [CHR 0x22] @ concat (map escape_char s) @ [CHR 0x22]"

definition newline_indent :: "nat \<Rightarrow> string" where
  "newline_indent level = newline @ replicate (2 * level) CHR '' ''"

fun dumps :: "nat \<Rightarrow> json \<Rightarrow> string" where
  "dumps level JNone = ''null''"
| "dumps level (JBool b) = (if b then ''true'' else ''false'')"
| "dumps level (JInt n) = str_of_int n"
| "dumps level (JStr s) = encode_string s"
| "dumps level (JList xs) =
     (if xs = [] then ''[]''
      else ''['' @ newline_indent (Suc level)
           @ str_join ('','' @ newline_indent (Suc level)) (map (dumps (Suc level)) xs)
           @ newline_indent level @ '']'')"
| "dumps level (JDict d) =
     (if d = [] then ''{}''
      else ''{'' @ newline_indent (Suc level)
           @ str_join ('','' @ newline_indent (Suc level))
               (map (\<lambda>kv. encode_string (fst kv) @ '': '' @ dumps (Suc level) (snd kv)) d)
           @ newline_indent level @ ''}'')"

definition json_dumps :: "json \<Rightarrow> string" where
  "json_dumps body = dumps 0 body"

text \<open>
  \<open>APILogger._format_body\<close>. The loop over \<open>['password', 'token', 'api_key']\<close> assigns
  the marker to each of these keys that the copy of a dict body has. A body that is
  neither a dict nor a list is printed by \<open>str\<close>.
\<close>

definition mask_key :: "(string \<times> json) list \<Rightarrow> string \<Rightarrow> (string \<times> json) list" where
  "mask_key body key = (if dict_has key body then dict_set key (JStr ''*****'') body else body)"

definition format_body :: "json \<Rightarrow> string" where
  "format_body body =
     (if \<not> truthy body then []
      else case body of
             JDict d \<Rightarrow> json_dumps (JDict (foldl mask_key d [''password'', ''token'', ''api_key'']))
           | JList xs \<Rightarrow> json_dumps body
           | JNone \<Rightarrow> ''None''
           | JBool b \<Rightarrow> (if b then ''True'' else ''False'')
           | JInt n \<Rightarrow> str_of_int n
           | JStr s \<Rightarrow> s)"

text \<open>
  The masking of a body field as the specification words it: a field named
  \<open>password\<close>, \<open>token\<close> or \<open>api_key\<close> has its value replaced by the marker, any other
  field is kept.
\<close>

definition masked_field :: "string \<times> json \<Rightarrow> string \<times> json" where
  "masked_field kv =
     (fst kv, if fst kv \<in> {''password'', ''token'', ''api_key''} then JStr ''*****'' else snd kv)"

text \<open>
  The entry \<open>log_request\<close> builds; \<open>stamp\<close> is \<open>timestamp.isoformat()\<close> of the clock
  reading. \<open>if headers:\<close> is false for \<open>None\<close> and for an empty dict.
\<close>

definition headers_part :: "(string \<times> string) list option \<Rightarrow> string" where
  "headers_part headers =
     (case headers of
        None \<Rightarrow> []
      | Some hs \<Rightarrow> if hs = [] then [] else format_headers hs @ newline)"

definition body_part :: "json \<Rightarrow> string" where
  "body_part body = (if truthy body then ''Body: '' @ format_body body @ newline else [])"

definition request_entry ::
  "string \<Rightarrow> string \<Rightarrow> string \<Rightarrow> (string \<times> string) list option \<Rightarrow> json \<Rightarrow> string" where
  "request_entry stamp meth url headers body =
     ''['' @ stamp @ ''Z] REQUEST:'' @ newline @ meth @ '' '' @ url @ newline
       @ headers_part headers @ body_part body"





section \<open>assertions.py\<close>

text \<open>
  A \<open>requests.Response\<close> as the module reads it: the status code, the response
  headers (looked up without regard to case), the decoded JSON body (\<open>None\<close> when
  \<open>response.json()\<close> raises \<open>JSONDecodeError\<close>) and the headers of the request sent.
\<close>

record response =
  r_status_code :: int
  r_headers :: "(string \<times> string) list"
  r_json :: "json option"
  r_request_headers :: "(string \<times> string) list"

text \<open>
  What the module takes from outside: \<open>jsonschema.validate\<close>, which returns, raises
  \<open>ValidationError\<close> with a message or raises \<open>SchemaError\<close>; and \<open>repr\<close> of a JSON value,
  used in one message.
\<close>

datatype validation = Valid | ValidationError string | SchemaError string

record library =
  jsonschema_validate :: "json \<Rightarrow> json \<Rightarrow> validation"
  py_repr :: "json \<Rightarrow> string"

definition quoted :: "string \<Rightarrow> string" where
  "quoted s = [CHR 0x27] @ s @ [CHR 0x27]"

definition validate_status_code :: "response \<Rightarrow> int \<Rightarrow> py_error + unit" where
  "validate_status_code resp expected_code =
     (if r_status_code resp = expected_code then Inr ()
      else Inl (AssertionError (''Expected status code '' @ str_of_int expected_code
                  @ '', got '' @ str_of_int (r_status_code resp))))"

definition validate_json_schema :: "library \<Rightarrow> response \<Rightarrow> json \<Rightarrow> py_error + unit" where
  "validate_json_schema lib resp schema =
     (case r_json resp of
        None \<Rightarrow> Inl (AssertionError ''Response is not valid JSON'')
      | Some json_data \<Rightarrow>
          (case jsonschema_validate lib json_data schema of
             Valid \<Rightarrow> Inr ()
           | ValidationError msg \<Rightarrow>
               Inl (AssertionError (''JSON schema validation failed: '' @ msg))
           | SchemaError msg \<Rightarrow> Inl (OtherError msg)))"

text \<open>Lookup in \<open>response.headers\<close>, a \<open>CaseInsensitiveDict\<close>.\<close>

fun header_lookup :: "(string \<times> string) list \<Rightarrow> string \<Rightarrow> string option" where
  "header_lookup [] name = None"
| "header_lookup ((k, v) # hs) name =
     (if lower k = lower name then Some v else header_lookup hs name)"

fun validate_headers :: "response \<Rightarrow> (string \<times> string) list \<Rightarrow> py_error + unit" where
  "validate_headers resp [] = Inr ()"
| "validate_headers resp ((header, v) # rest) =
     (case header_lookup (r_headers resp) header of
        None \<Rightarrow> Inl (AssertionError (''Header '' @ quoted header @ '' not found in response''))
      | Some actual \<Rightarrow>
          if actual = v then validate_headers resp rest
          else Inl (AssertionError (''Expected header '' @ quoted header @ '' to be ''
                      @ quoted v @ '', got '' @ quoted actual)))"

text \<open>
  \<open>==\<close> on decoded JSON: dicts are equal when they have the same keys with equal
  values, in any order; \<open>True\<close> equals 1 and \<open>False\<close> equals 0.
\<close>

function (sequential) json_eq :: "json \<Rightarrow> json \<Rightarrow> bool" where
  "json_eq JNone JNone = True"
| "json_eq (JBool a) (JBool b) = (a = b)"
| "json_eq (JBool a) (JInt n) = (n = (if a then 1 else 0))"
| "json_eq (JInt n) (JBool a) = (n = (if a then 1 else 0))"
| "json_eq (JInt m) (JInt n) = (m = n)"
| "json_eq (JStr s) (JStr t) = (s = t)"
| "json_eq (JList xs) (JList ys) =
     (length xs = length ys \<and> (\<forall>p \<in> set (zip xs ys). json_eq (fst p) (snd p)))"
| "json_eq (JDict a) (JDict b) =
     (length a = length b \<and>
      (\<forall>kv \<in> set a. case map_of b (fst kv) of
                        None \<Rightarrow> False
                      | Some v \<Rightarrow> json_eq (snd kv) v))"
| "json_eq _ _ = False"
  by pat_completeness auto
termination
proof (relation "measure (\<lambda>p. size (fst p))", goal_cases)
  case 1
  show ?case by simp
next
  case (2 xs ys p)
  then have "fst p \<in> set xs" by (metis in_set_zipE prod.collapse)
  then have "size (fst p) \<le> size_list size xs" by (rule size_list_estimation') simp
  then show ?case by simp
next
  case (3 a b kv v)
  have "size (snd kv) \<le> size_prod (\<lambda>_. 0) size kv" by (cases kv) simp
  moreover have "kv \<in> set a" using 3 by simp
  then have "size_prod (\<lambda>_. 0) size kv \<le> size_list (size_prod (\<lambda>_. 0) size) a"
    by (rule size_list_estimation') simp
  ultimately show ?case by simp
qed

definition validate_json_content :: "library \<Rightarrow> response \<Rightarrow> json \<Rightarrow> py_error + unit" where
  "validate_json_content lib resp expected_content =
     (case r_json resp of
        None \<Rightarrow> Inl (AssertionError ''Response is not valid JSON'')
      | Some json_data \<Rightarrow>
          if json_eq json_data expected_content then Inr ()
          else Inl (AssertionError (''Expected content '' @ py_repr lib expected_content
                      @ '', got '' @ py_repr lib json_data)))"

text \<open>
  The decorator \<open>api_test\<close>. Its arguments are the configuration of the wrapped test.
\<close>

record api_test_config =
  cfg_endpoint :: string
  cfg_method :: string
  expected_status :: int
  expected_schema :: "json option"
  expected_headers :: "(string \<times> string) list option"
  expected_content :: "json option"

text \<open>
  One validation inside \<open>try: ... except AssertionError as e:
  validation_errors.append(str(e))\<close>: an assertion error adds its message and the
  wrapper goes on to the next check; any other exception leaves the checks.
\<close>

fun collect :: "py_error + unit \<Rightarrow> string list \<Rightarrow> py_error + string list" where
  "collect (Inr u) errors = Inr errors"
| "collect (Inl (AssertionError msg)) errors = Inr (errors @ [msg])"
| "collect (Inl e) errors = Inl e"

definition check_status :: "api_test_config \<Rightarrow> response \<Rightarrow> string list \<Rightarrow> py_error + string list" where
  "check_status cfg resp errors = collect (validate_status_code resp (expected_status cfg)) errors"

definition check_schema ::
  "library \<Rightarrow> api_test_config \<Rightarrow> response \<Rightarrow> string list \<Rightarrow> py_error + string list" where
  "check_schema lib cfg resp errors =
     (case expected_schema cfg of
        None \<Rightarrow> Inr errors
      | Some schema \<Rightarrow>
          if truthy schema then collect (validate_json_schema lib resp schema) errors
          else Inr errors)"

definition check_headers :: "api_test_config \<Rightarrow> response \<Rightarrow> string list \<Rightarrow> py_error + string list" where
  "check_headers cfg resp errors =
     (case expected_headers cfg of
        None \<Rightarrow> Inr errors
      | Some hs \<Rightarrow>
          if hs \<noteq> [] then collect (validate_headers resp hs) errors else Inr errors)"

definition check_content ::
  "library \<Rightarrow> api_test_config \<Rightarrow> response \<Rightarrow> string list \<Rightarrow> py_error + string list" where
  "check_content lib cfg resp errors =
     (case expected_content cfg of
        None \<Rightarrow> Inr errors
      | Some c \<Rightarrow>
          if truthy c then collect (validate_json_content lib resp c) errors else Inr errors)"

definition and_then :: "py_error + 'a \<Rightarrow> ('a \<Rightarrow> py_error + 'b) \<Rightarrow> py_error + 'b" where
  "and_then r f = (case r of Inl e \<Rightarrow> Inl e | Inr x \<Rightarrow> f x)"

text \<open>The four validations of the wrapper, in the order of the source.\<close>

definition perform_validations ::
  "library \<Rightarrow> api_test_config \<Rightarrow> response \<Rightarrow> py_error + string list" where
  "perform_validations lib cfg resp =
     and_then (check_status cfg resp [])
       (\<lambda>e1. and_then (check_schema lib cfg resp e1)
         (\<lambda>e2. and_then (check_headers cfg resp e2)
           (\<lambda>e3. check_content lib cfg resp e3)))"

text \<open>\<open>str(e)\<close> of an exception.\<close>

fun str_of_error :: "py_error \<Rightarrow> string" where
  "str_of_error ZeroDivisionError = ''division by zero''"
| "str_of_error (ValueError msg) = msg"
| "str_of_error (AssertionError msg) = msg"
| "str_of_error (OSError msg) = msg"
| "str_of_error (OtherError msg) = msg"

text \<open>
  The handler \<open>except Exception as e\<close>: an exception that is no \<open>AssertionError\<close> makes
  the outcome an ERROR with the exception's message; the exception is raised again.
\<close>

definition on_exception :: "py_error \<Rightarrow> 'ts TestResult \<Rightarrow> 'ts TestResult" where
  "on_exception e test_result =
     (case e of
        AssertionError msg \<Rightarrow> test_result
      | _ \<Rightarrow> test_result\<lparr>status := ''ERROR'', error_message := Some (str_of_error e)\<rparr>)"

text \<open>
  The body of the \<open>try\<close> after the request has returned \<open>resp\<close>: the outcome as the
  body leaves it, and what the body returns or raises.
\<close>

definition after_response ::
  "library \<Rightarrow> api_test_config \<Rightarrow> response \<Rightarrow> 'ts TestResult
     \<Rightarrow> 'ts TestResult \<times> (py_error + response)" where
  "after_response lib cfg resp test_result =
     (let t1 = test_result\<lparr>response_code := Some (r_status_code resp),
                           request_headers := Some (r_request_headers resp),
                           response_headers := Some (r_headers resp)\<rparr>
      in case perform_validations lib cfg resp of
           Inl e \<Rightarrow> (on_exception e t1, Inl e)
         | Inr errors \<Rightarrow>
             if errors \<noteq> []
             then (let msg = str_join newline errors;
                       t2 = t1\<lparr>status := ''FAILED'', error_message := Some msg,
                               validation_errors := Some errors\<rparr>
                   in (on_exception (AssertionError msg) t2, Inl (AssertionError msg)))
             else (t1, Inr resp))"

text \<open>
  The wrapper. \<open>has_client\<close> tells whether the test object has a client; \<open>request\<close> is
  what calling the test function and then the client's method gives, a response or
  an exception; \<open>now\<close>, \<open>start_time\<close> and \<open>end_time\<close> are the clock readings. The
  \<open>finally\<close> clause sets the execution time and submits the outcome to the reporter.
  Without a client the wrapper raises before an outcome exists.
\<close>

definition wrapper ::
  "(rat \<Rightarrow> rat) \<Rightarrow> library \<Rightarrow> api_test_config \<Rightarrow> bool \<Rightarrow> string \<Rightarrow> string \<Rightarrow> 'ts
     \<Rightarrow> pyfloat \<Rightarrow> pyfloat \<Rightarrow> py_error + response
     \<Rightarrow> ('ts TestResult, 's) worker
     \<Rightarrow> (py_error + response) \<times> ('ts TestResult, 's) worker" where
  "wrapper rnd lib cfg has_client func_name class_name now start_time end_time request reporter =
     (if \<not> has_client
      then (Inl (ValueError (''Test class must have '' @ quoted ''client'' @ '' attribute'')),
            reporter)
      else
        let test_result =
              \<lparr>test_name = func_name, test_class = class_name, status = ''SUCCESS'',
               execution_time = 0, timestamp = now, endpoint = cfg_endpoint cfg,
               http_method = cfg_method cfg, response_code = None, error_message = None,
               request_headers = None, response_headers = None, validation_errors = None\<rparr>;
            (outcome, result) =
              (case request of
                 Inl e \<Rightarrow> (on_exception e test_result, Inl e)
               | Inr resp \<Rightarrow> after_response lib cfg resp test_result);
            outcome = outcome\<lparr>execution_time := rnd (end_time - start_time)\<rparr>
        in (result, put outcome reporter))"


section \<open>logger.py on a store: what the caller's objects look like afterwards\<close>

text \<open>
  Dicts and lists are objects in a store and a variable holds the address of one; two
  variables may hold the same address. A value is \<open>None\<close>, a boolean, an integer, a
  string or the address of an object. An object is a dict or a list of values, or a
  headers dict, whose values are strings (\<open>Dict[str, str]\<close>). The store is the list of
  all objects; an address is an index into it, and a new object goes to the end.
\<close>

type_synonym addr = nat

datatype pval = VNone | VBool bool | VInt int | VStr string | VRef addr

datatype obj =
    ODict "(string \<times> pval) list"
  | OList "pval list"
  | OHeaders "(string \<times> string) list"

type_synonym store = "obj list"

definition deref :: "store \<Rightarrow> addr \<Rightarrow> obj option" where
  "deref h a = (if a < length h then Some (h ! a) else None)"

definition alloc :: "obj \<Rightarrow> store \<Rightarrow> addr \<times> store" where
  "alloc ob h = (length h, h @ [ob])"

text \<open>\<open>body[key] = '*****'\<close> on the dict at address \<open>a\<close>, guarded by \<open>if key in body\<close>.\<close>

definition assign_marker :: "addr \<Rightarrow> store \<Rightarrow> string \<Rightarrow> store" where
  "assign_marker a h key =
     (case deref h a of
        Some (ODict d) \<Rightarrow>
          if dict_has key d then h[a := ODict (dict_set key (VStr ''*****'') d)] else h
      | _ \<Rightarrow> h)"

text \<open>
  Reading the JSON value that a value of the store stands for, following addresses at
  most \<open>n\<close> deep. A store of \<open>k\<close> objects has no path of more than \<open>k\<close> addresses unless
  an object contains itself, so reading \<open>k + 1\<close> deep fails exactly on a circular
  value, on which \<open>json.dumps\<close> raises \<open>ValueError\<close>.
\<close>

fun load :: "nat \<Rightarrow> store \<Rightarrow> pval \<Rightarrow> json option" where
  "load n h VNone = Some JNone"
| "load n h (VBool b) = Some (JBool b)"
| "load n h (VInt i) = Some (JInt i)"
| "load n h (VStr s) = Some (JStr s)"
| "load 0 h (VRef a) = None"
| "load (Suc n) h (VRef a) =
     (case deref h a of
        None \<Rightarrow> None
      | Some (OList xs) \<Rightarrow> map_option JList (those (map (load n h) xs))
      | Some (ODict d) \<Rightarrow>
          map_option JDict
            (those (map (\<lambda>kv. map_option (Pair (fst kv)) (load n h (snd kv))) d))
      | Some (OHeaders hs) \<Rightarrow> Some (JDict (map (\<lambda>kv. (fst kv, JStr (snd kv))) hs)))"

definition json_dumps_store :: "store \<Rightarrow> pval \<Rightarrow> py_error + string" where
  "json_dumps_store h v =
     (case load (Suc (length h)) h v of
        None \<Rightarrow> Inl (ValueError ''Circular reference detected'')
      | Some j \<Rightarrow> Inr (json_dumps j))"

definition truthy_store :: "store \<Rightarrow> pval \<Rightarrow> bool" where
  "truthy_store h v =
     (case v of
        VNone \<Rightarrow> False
      | VBool b \<Rightarrow> b
      | VInt n \<Rightarrow> n \<noteq> 0
      | VStr s \<Rightarrow> s \<noteq> []
      | VRef a \<Rightarrow>
          (case deref h a of
             None \<Rightarrow> False
           | Some (ODict d) \<Rightarrow> d \<noteq> []
           | Some (OList xs) \<Rightarrow> xs \<noteq> []
           | Some (OHeaders hs) \<Rightarrow> hs \<noteq> []))"

text \<open>The items of a dict object, a headers dict among them.\<close>

definition dict_items :: "obj \<Rightarrow> (string \<times> pval) list option" where
  "dict_items ob =
     (case ob of
        ODict d \<Rightarrow> Some d
      | OHeaders hs \<Rightarrow> Some (map (\<lambda>kv. (fst kv, VStr (snd kv))) hs)
      | OList xs \<Rightarrow> None)"

text \<open>
  \<open>APILogger._format_body\<close> on the store. \<open>body = body.copy()\<close> allocates a new dict
  with the same items (a shallow copy: nested objects are shared) and the local
  variable then holds the new address; the assignments and \<open>json.dumps\<close> go through it.
\<close>

definition format_body_store :: "store \<Rightarrow> pval \<Rightarrow> (py_error + string) \<times> store" where
  "format_body_store h body =
     (if \<not> truthy_store h body then (Inr [], h)
      else case body of
             VRef a \<Rightarrow>
               (case deref h a of
                  None \<Rightarrow> (Inr [], h)
                | Some ob \<Rightarrow>
                    (case dict_items ob of
                       Some d \<Rightarrow>
                         let (c, h1) = alloc (ODict d) h;
                             h2 = foldl (assign_marker c) h1 [''password'', ''token'', ''api_key'']
                         in (json_dumps_store h2 (VRef c), h2)
                     | None \<Rightarrow> (json_dumps_store h body, h)))
           | VNone \<Rightarrow> (Inr ''None'', h)
           | VBool b \<Rightarrow> (Inr (if b then ''True'' else ''False''), h)
           | VInt n \<Rightarrow> (Inr (str_of_int n), h)
           | VStr s \<Rightarrow> (Inr s, h))"

text \<open>
  \<open>_format_headers\<close> reads the items of the headers dict; assigning to the loop
  variable \<open>value\<close> changes no object. \<open>headers\<close> is \<open>None\<close> or the address of a headers
  dict.
\<close>

definition headers_part_store :: "store \<Rightarrow> addr option \<Rightarrow> string" where
  "headers_part_store h headers =
     (case headers of
        None \<Rightarrow> []
      | Some a \<Rightarrow>
          (case deref h a of
             Some (OHeaders hs) \<Rightarrow> headers_part (Some hs)
           | _ \<Rightarrow> []))"

text \<open>
  The rest of \<open>log_request\<close> and \<open>log_response\<close> after the first lines of the entry: the
  headers, the body, the closing text, and the \<open>put\<close>. An exception of \<open>json.dumps\<close>
  leaves the method before the \<open>put\<close>.
\<close>

definition finish_entry ::
  "string \<Rightarrow> string \<Rightarrow> addr option \<Rightarrow> pval \<Rightarrow> store \<Rightarrow> (string, 's) worker
     \<Rightarrow> (py_error + unit) \<times> store \<times> (string, 's) worker" where
  "finish_entry first_lines closing headers body h w =
     (let entry = first_lines @ headers_part_store h headers
      in if truthy_store h body
         then (case format_body_store h body of
                 (Inl e, h') \<Rightarrow> (Inl e, h', w)
               | (Inr printed, h') \<Rightarrow>
                   (Inr (), h', put (entry @ ''Body: '' @ printed @ newline @ closing) w))
         else (Inr (), h, put (entry @ closing) w))"

definition log_request_store ::
  "string \<Rightarrow> string \<Rightarrow> string \<Rightarrow> addr option \<Rightarrow> pval \<Rightarrow> store \<Rightarrow> (string, 's) worker
     \<Rightarrow> (py_error + unit) \<times> store \<times> (string, 's) worker" where
  "log_request_store stamp meth url headers body h w =
     finish_entry (''['' @ stamp @ ''Z] REQUEST:'' @ newline @ meth @ '' '' @ url @ newline)
       [] headers body h w"

definition log_response_store ::
  "string \<Rightarrow> int \<Rightarrow> int \<Rightarrow> addr option \<Rightarrow> pval \<Rightarrow> store \<Rightarrow> (string, 's) worker
     \<Rightarrow> (py_error + unit) \<times> store \<times> (string, 's) worker" where
  "log_response_store stamp duration_ms status_code headers body h w =
     finish_entry
       (''['' @ stamp @ ''Z] RESPONSE ('' @ str_of_int duration_ms @ ''ms):'' @ newline
          @ ''Status: '' @ str_of_int status_code @ newline)
       (replicate 40 CHR ''-'' @ newline) headers body h w"


section \<open>Properties\<close>


subsection \<open>MetricsCollector\<close>

lemma add_result_total: "total_tests (add_result rnd r m) = total_tests m + 1"
  by (simp add: add_result_def Let_def record_code_def record_time_def count_status_def
      split: option.splits)

lemma add_result_counters:
  "passed_tests (add_result rnd r m) =
     passed_tests m + (if status r = ''SUCCESS'' then 1 else 0)"
  "failed_tests (add_result rnd r m) =
     failed_tests m + (if status r \<noteq> ''SUCCESS'' \<and> status r = ''FAILED'' then 1 else 0)"
  "error_tests (add_result rnd r m) =
     error_tests m + (if status r \<noteq> ''SUCCESS'' \<and> status r \<noteq> ''FAILED'' then 1 else 0)"
  by (simp_all add: add_result_def Let_def record_code_def record_time_def count_status_def
      split: option.splits)

lemma dict_set_values: "set (dict_set k v d) \<subseteq> insert (k, v) (set d)"
  by (induction d) (auto split: if_splits)

lemma dict_set_absent: "\<not> dict_has k d \<Longrightarrow> dict_set k v d = d @ [(k, v)]"
  by (induction d) (auto simp: dict_has_def)

lemma dict_set_last: "\<not> dict_has k d \<Longrightarrow> dict_set k v (d @ [(k, w)]) = d @ [(k, v)]"
  by (induction d) (auto simp: dict_has_def)

lemma dict_get_last: "\<not> dict_has k d \<Longrightarrow> dict_get (d @ [(k, w)]) k dflt = w"
  by (induction d) (auto simp: dict_get_def dict_has_def)

lemma record_time_absent:
  "\<not> dict_has key (response_times m) \<Longrightarrow>
     response_times (record_time key t m) = response_times m @ [(key, [t])]"
  by (simp add: record_time_def Let_def dict_set_absent dict_set_last dict_get_last)

lemma record_time_present:
  "dict_has key (response_times m) \<Longrightarrow>
     response_times (record_time key t m) =
       dict_set key (dict_get (response_times m) key [] @ [t]) (response_times m)"
  by (simp add: record_time_def Let_def)

lemma record_time_nonempty:
  assumes "times_nonempty m"
  shows "times_nonempty (record_time key t m)"
proof (cases "dict_has key (response_times m)")
  case True
  have "set (response_times (record_time key t m))
          \<subseteq> insert (key, dict_get (response_times m) key [] @ [t]) (set (response_times m))"
    using True by (simp add: record_time_present dict_set_values)
  with assms show ?thesis unfolding times_nonempty_def by auto
next
  case False
  with assms show ?thesis unfolding times_nonempty_def by (auto simp: record_time_absent)
qed

lemma response_times_count_status [simp]:
  "response_times (count_status s m) = response_times m"
  by (simp add: count_status_def)

lemma response_times_record_code [simp]:
  "response_times (record_code rc m) = response_times m"
  by (simp add: record_code_def split: option.splits)

lemma add_result_times_nonempty:
  assumes "times_nonempty m"
  shows "times_nonempty (add_result rnd r m)"
proof -
  let ?m3 = "count_status (status r)
      (m\<lparr>total_tests := total_tests m + 1,
         total_execution_time := rnd (total_execution_time m + execution_time r)\<rparr>)"
  have "times_nonempty ?m3" using assms by (simp add: times_nonempty_def)
  then have "times_nonempty (record_time (http_method r @ '' '' @ endpoint r) (execution_time r) ?m3)"
    by (rule record_time_nonempty)
  then show ?thesis by (simp add: add_result_def Let_def times_nonempty_def)
qed

lemma average_response_times_ok:
  "\<forall>(k, ts) \<in> set rt. ts \<noteq> [] \<Longrightarrow> \<exists>avgs. average_response_times rnd rt = Inr avgs"
  by (induction rt) (auto simp: truediv_def split: sum.splits)


subsection \<open>The consumer loop\<close>

text \<open>
  Once the stop event is set the loop returns, with the queue empty and every queued
  item handled once, in queue order.
\<close>

lemma consumer_loop_drains:
  "stop_event w \<Longrightarrow>
     consumer_loop handle w =
       Some (w\<lparr>queue := [], target := foldl (\<lambda>s x. handle x s) (target w) (queue w)\<rparr>)"
proof (induction "queue w" arbitrary: w)
  case Nil
  then show ?case
    by (subst consumer_loop.simps) (simp add: loop_condition_def)
next
  case (Cons x q)
  let ?w' = "w\<lparr>queue := q, target := handle x (target w)\<rparr>"
  have body: "loop_body handle w = ?w'"
    using Cons.hyps(2) [symmetric] by (simp add: loop_body_def)
  have cond: "loop_condition w"
    using Cons.hyps(2) [symmetric] by (simp add: loop_condition_def)
  have "consumer_loop handle w = consumer_loop handle ?w'"
    by (subst consumer_loop.simps) (simp add: cond body)
  also have "\<dots> = Some (?w'\<lparr>queue := [],
      target := foldl (\<lambda>s x. handle x s) (target ?w') (queue ?w')\<rparr>)"
    by (rule Cons.hyps(1)) (simp_all add: Cons.prems)
  finally show ?case
    using Cons.hyps(2) [symmetric] by simp
qed

text \<open>
  While producers and the consumer interleave, handling what is still queued after what
  was handled already amounts to handling every item put so far, in the order put.
\<close>

lemma interleave_invariant:
  "foldl (\<lambda>s x. handle x s) (target (interleave handle es w)) (queue (interleave handle es w))
     = foldl (\<lambda>s x. handle x s) (target w) (queue w @ puts es)
   \<and> stop_event (interleave handle es w) = stop_event w"
proof (induction es arbitrary: w rule: puts.induct)
  case 1
  then show ?case by simp
next
  case (2 x es)
  show ?case using 2 [of "put x w"] by (simp add: put_def)
next
  case (3 es)
  show ?case
    using 3 [of "if loop_condition w then loop_body handle w else w"]
    by (cases "queue w") (simp_all add: loop_body_def)
qed

lemma stopped_loop_drains:
  "consumer_loop handle ((interleave handle es (worker_init t))\<lparr>stop_event := True\<rparr>) =
     Some \<lparr>queue = [], stop_event = True, target = foldl (\<lambda>s x. handle x s) t (puts es)\<rparr>"
proof -
  let ?w = "interleave handle es (worker_init t)"
  have "consumer_loop handle (?w\<lparr>stop_event := True\<rparr>) =
      Some (?w\<lparr>stop_event := True, queue := [],
        target := foldl (\<lambda>s x. handle x s) (target ?w) (queue ?w)\<rparr>)"
    by (subst consumer_loop_drains) simp_all
  moreover have "foldl (\<lambda>s x. handle x s) (target ?w) (queue ?w)
      = foldl (\<lambda>s x. handle x s) t (puts es)"
    using interleave_invariant [of handle es "worker_init t"] by (simp add: worker_init_def)
  ultimately show ?thesis by simp
qed

lemma foldl_process_result:
  "foldl (\<lambda>s x. process_result rnd x s) g rs =
     g\<lparr>results := results g @ rs,
       metrics := foldl (\<lambda>m r. add_result rnd r m) (metrics g) rs\<rparr>"
  by (induction rs arbitrary: g) (simp_all add: process_result_def)


subsection \<open>The success rate\<close>

lemma success_rate_cases:
  "success_rate rnd m =
     (if total_tests m > 0
      then Inr (rnd (rnd (of_int (passed_tests m) / of_int (total_tests m)) * 100))
      else Inr 0)"
  by (simp add: success_rate_def truediv_def)

text \<open>
  Two roundings in a row, of a quotient and of its product with 100, stay within a
  relative error of \<open>3 / 2^53\<close>, the quotient being zero or in a range where neither
  operation leaves the normal range of doubles.
\<close>

lemma two_roundings:
  fixes x :: rat
  assumes acc: "rel_accurate rnd"
    and range: "x = 0 \<or> (1 / 2 ^ 1022 \<le> \<bar>x\<bar> \<and> \<bar>x\<bar> * 101 \<le> 2 ^ 1023)"
  shows "\<bar>rnd (rnd x * 100) - x * 100\<bar> \<le> \<bar>x * 100\<bar> * 3 / 2 ^ 53"
proof (cases "x = 0")
  case True
  have "rnd 0 = 0" using acc by (simp add: rel_accurate_def)
  then show ?thesis using True by simp
next
  case False
  define u :: rat where "u = 1 / 2 ^ 53"
  define q where "q = rnd x"
  define r where "r = rnd (q * 100)"
  define a where "a = \<bar>x\<bar>"
  have lo: "1 / 2 ^ 1022 \<le> a" and hi: "a * 101 \<le> 2 ^ 1023"
    using range False by (simp_all add: a_def)
  have u_pos: "0 \<le> u" and u_small: "u * u \<le> u" and u_tiny: "u \<le> 1 / 100"
    by (simp_all add: u_def)
  have a_pos: "0 \<le> a" by (simp add: a_def)
  have "a \<le> a * 101" using a_pos by simp
  then have x_range: "1 / 2 ^ 1022 \<le> \<bar>x\<bar> \<and> \<bar>x\<bar> \<le> 2 ^ 1023"
    using lo hi by (simp add: a_def)
  have 1: "\<bar>q - x\<bar> \<le> a * u"
    using acc x_range by (simp add: rel_accurate_def q_def u_def a_def)
  have au: "a * u \<le> a * (1 / 100)" using u_tiny a_pos by (rule mult_left_mono)
  have q_lo: "a - a * u \<le> \<bar>q\<bar>" and q_hi: "\<bar>q\<bar> \<le> a + a * u"
    using 1 unfolding a_def by linarith+
  have "1 / 2 ^ 1022 \<le> \<bar>q\<bar> * 100" using q_lo au lo by linarith
  moreover have "\<bar>q\<bar> * 100 \<le> 2 ^ 1023" using q_hi au hi by linarith
  ultimately have q_range: "1 / 2 ^ 1022 \<le> \<bar>q * 100\<bar> \<and> \<bar>q * 100\<bar> \<le> 2 ^ 1023"
    by (simp add: abs_mult)
  have 2: "\<bar>r - q * 100\<bar> \<le> \<bar>q * 100\<bar> * u"
  proof -
    have "\<bar>rnd (q * 100) - q * 100\<bar> \<le> \<bar>q * 100\<bar> / 2 ^ 53"
      using acc q_range unfolding rel_accurate_def by blast
    then show ?thesis by (simp add: r_def u_def)
  qed
  have "\<bar>q * 100\<bar> * u = \<bar>q\<bar> * (100 * u)" by (simp add: abs_mult)
  also have "\<dots> \<le> (a + a * u) * (100 * u)"
    using q_hi u_pos by (intro mult_right_mono) simp_all
  finally have 4: "\<bar>r - q * 100\<bar> \<le> (a + a * u) * (100 * u)" using 2 by linarith
  have "\<bar>r - x * 100\<bar> = \<bar>(r - q * 100) + (q - x) * 100\<bar>"
    by (simp add: algebra_simps)
  also have "\<dots> \<le> \<bar>r - q * 100\<bar> + \<bar>(q - x) * 100\<bar>"
    by (rule abs_triangle_ineq)
  finally have 5: "\<bar>r - x * 100\<bar> \<le> \<bar>r - q * 100\<bar> + \<bar>q - x\<bar> * 100"
    unfolding abs_mult by simp
  have "a * (u * u) \<le> a * u" using u_small a_pos by (rule mult_left_mono)
  then have 6: "(a + a * u) * (100 * u) + a * u * 100 \<le> a * 100 * (3 * u)"
    by (simp add: algebra_simps)
  have "\<bar>r - x * 100\<bar> \<le> a * 100 * (3 * u)" using 1 4 5 6 by linarith
  then show ?thesis by (simp add: r_def q_def a_def u_def abs_mult)
qed

text \<open>Counters up to \<open>2^1000\<close> give such a quotient.\<close>

lemma quotient_in_range:
  fixes p t :: int
  assumes "0 < t" and "t \<le> 2 ^ 1000" and "\<bar>p\<bar> \<le> 2 ^ 1000"
  shows "(of_int p / of_int t :: rat) = 0
       \<or> ((1::rat) / 2 ^ 1022 \<le> \<bar>of_int p / of_int t\<bar>
          \<and> \<bar>of_int p / of_int t :: rat\<bar> * 101 \<le> 2 ^ 1023)"
proof (cases "p = 0")
  case True
  then show ?thesis by simp
next
  case False
  let ?x = "of_int p / of_int t :: rat"
  have t1: "(1::rat) \<le> of_int t" using assms(1) by simp
  have t2: "(of_int t :: rat) \<le> 2 ^ 1000"
  proof -
    have "(of_int t :: rat) \<le> of_int (2 ^ 1000)" using assms(2) by (simp only: of_int_le_iff)
    then show ?thesis by simp
  qed
  have p1: "(1::rat) \<le> \<bar>of_int p\<bar>" using False by (simp flip: of_int_abs)
  have p2: "\<bar>of_int p :: rat\<bar> \<le> 2 ^ 1000"
  proof -
    have "(of_int \<bar>p\<bar> :: rat) \<le> of_int (2 ^ 1000)" using assms(3) by (simp only: of_int_le_iff)
    then show ?thesis by simp
  qed
  have x: "\<bar>?x\<bar> = \<bar>of_int p\<bar> / of_int t" using t1 by simp
  have "1 / of_int t \<le> \<bar>of_int p :: rat\<bar> / of_int t"
    using p1 t1 by (intro divide_right_mono) simp_all
  moreover have "(1::rat) / 2 ^ 1000 \<le> 1 / of_int t"
    using t1 t2 by (intro divide_left_mono) simp_all
  moreover have "(1::rat) / 2 ^ 1022 \<le> 1 / 2 ^ 1000" by simp
  ultimately have lo: "(1::rat) / 2 ^ 1022 \<le> \<bar>?x\<bar>" unfolding x by linarith
  have "\<bar>of_int p :: rat\<bar> / of_int t \<le> \<bar>of_int p\<bar> / 1"
    using t1 by (intro divide_left_mono) simp_all
  then have "\<bar>?x\<bar> \<le> 2 ^ 1000" unfolding x using p2 by simp
  then have "\<bar>?x\<bar> * 101 \<le> 2 ^ 1000 * 101" by (rule mult_right_mono) simp
  also have "\<dots> \<le> (2 ^ 1023 :: rat)" by simp
  finally show ?thesis using lo by simp
qed

text \<open>
  Claim C8. In every aggregator state \<open>get_metrics\<close> returns a snapshot, dividing by no
  zero, and the snapshot's success rate is 0 when \<open>total_tests\<close> is not positive.
  Otherwise it is \<open>passed_tests / total_tests * 100\<close> up to the two roundings of the
  float division and multiplication: the relative error is at most \<open>3 / 2^53\<close>, far
  below two decimal places. A state is one in which every endpoint has a duration,
  as \<open>add_result\<close> keeps it, and whose counters lie within \<open>2^1000\<close>, where the
  quotient is a normal double.
\<close>

theorem success_rate_spec:
  assumes "rel_accurate rnd" and "times_nonempty m"
    and "\<bar>passed_tests m\<bar> \<le> 2 ^ 1000" and "total_tests m \<le> 2 ^ 1000"
  shows "\<exists>s. get_metrics rnd m = Inr s \<and>
           (if total_tests m > 0
            then \<bar>m_success_rate s - of_int (passed_tests m) / of_int (total_tests m) * 100\<bar>
                   \<le> \<bar>of_int (passed_tests m) / of_int (total_tests m) * 100\<bar> * 3 / 2 ^ 53
            else m_success_rate s = 0)"
proof -
  obtain avgs where avgs: "average_response_times rnd (response_times m) = Inr avgs"
    using average_response_times_ok assms(2) unfolding times_nonempty_def by blast
  show ?thesis
  proof (cases "total_tests m > 0")
    case True
    let ?x = "of_int (passed_tests m) / of_int (total_tests m) :: rat"
    have "?x = 0 \<or> (1 / 2 ^ 1022 \<le> \<bar>?x\<bar> \<and> \<bar>?x\<bar> * 101 \<le> 2 ^ 1023)"
      using True assms(4,3) by (rule quotient_in_range)
    then have "\<bar>rnd (rnd ?x * 100) - ?x * 100\<bar> \<le> \<bar>?x * 100\<bar> * 3 / 2 ^ 53"
      by (rule two_roundings [OF assms(1)])
    then show ?thesis using True avgs by (simp add: get_metrics_def success_rate_cases)
  next
    case False
    then show ?thesis using avgs by (simp add: get_metrics_def success_rate_cases)
  qed
qed

text \<open>
  At one passed test of three, with the rounding that agrees with Python at the two
  numbers computed: the snapshot's success rate is the double that Python prints as
  \<open>33.33333333333333\<close>.
\<close>

lemma rnd_example_accurate: "rel_accurate rnd_example"
  unfolding rel_accurate_def
proof (intro conjI allI impI)
  show "rnd_example 0 = 0" by (simp add: rnd_example_def)
next
  fix x :: rat
  assume "1 / 2 ^ 1022 \<le> \<bar>x\<bar> \<and> \<bar>x\<bar> \<le> 2 ^ 1023"
  show "\<bar>rnd_example x - x\<bar> \<le> \<bar>x\<bar> / 2 ^ 53"
  proof (cases "x = 1 / 3")
    case True
    then show ?thesis by (simp add: rnd_example_def)
  next
    case False
    show ?thesis
    proof (cases "x = 6004799503160661 / 18014398509481984 * 100")
      case True
      then show ?thesis by (simp add: rnd_example_def)
    next
      case False
      with \<open>x \<noteq> 1 / 3\<close> show ?thesis by (simp add: rnd_example_def)
    qed
  qed
qed

theorem success_rate_spec_witness:
  "rel_accurate rnd_example
   \<and> times_nonempty
       \<lparr>total_tests = 3, passed_tests = 1, failed_tests = 2, error_tests = 0,
        total_execution_time = 0, response_times = [(''GET /users'', [0, 0, 0])],
        status_codes = [(200, 1), (500, 2)]\<rparr>
   \<and> (\<exists>s. get_metrics rnd_example
          \<lparr>total_tests = 3, passed_tests = 1, failed_tests = 2, error_tests = 0,
           total_execution_time = 0, response_times = [(''GET /users'', [0, 0, 0])],
           status_codes = [(200, 1), (500, 2)]\<rparr> = Inr s
        \<and> m_success_rate s = 2345624805922133 / 70368744177664
        \<and> \<bar>m_success_rate s - 1 / 3 * 100\<bar> \<le> \<bar>1 / 3 * 100\<bar> * 3 / 2 ^ 53)"
proof -
  let ?m = "\<lparr>total_tests = 3, passed_tests = 1, failed_tests = 2, error_tests = 0,
        total_execution_time = 0, response_times = [(''GET /users'', [0, 0, 0])],
        status_codes = [(200, 1), (500, 2)]\<rparr>"
  have t: "times_nonempty ?m" by (simp add: times_nonempty_def)
  obtain s where s: "get_metrics rnd_example ?m = Inr s"
    and b: "\<bar>m_success_rate s - 1 / 3 * 100\<bar> \<le> \<bar>1 / 3 * 100\<bar> * 3 / 2 ^ 53"
    using success_rate_spec [OF rnd_example_accurate t] by auto
  have "m_success_rate s = 2345624805922133 / 70368744177664"
    using s by (auto simp: get_metrics_def success_rate_cases rnd_example_def
        truediv_def py_sum_def)
  with rnd_example_accurate t s b show ?thesis by blast
qed

subsection \<open>The two-outcome scenario\<close>

text \<open>
  Claim C7. Ingesting t1 (SUCCESS, 0.5 s, GET /users, 200) and then t2 (FAILED, 1.5 s,
  GET /users, 500) into an empty collector gives the snapshot total 2, passed 1,
  failed 1, error 0, success rate 50, average of \<open>GET /users\<close> 1 and status codes
  200 and 500 once each. The fields the scenario leaves open are arbitrary. Every
  number computed is one a double holds, so no rounding changes it.
\<close>

theorem scenario_snapshot:
  assumes "exact_on_dyadics rnd"
  shows "get_metrics rnd
     (add_result rnd
        \<lparr>test_name = ''t2'', test_class = c2, status = ''FAILED'', execution_time = 3 / 2,
         timestamp = ts2, endpoint = ''/users'', http_method = ''GET'', response_code = Some 500,
         error_message = em2, request_headers = rq2, response_headers = rs2,
         validation_errors = Some [''bad field'']\<rparr>
        (add_result rnd
           \<lparr>test_name = ''t1'', test_class = c1, status = ''SUCCESS'', execution_time = 1 / 2,
            timestamp = ts1, endpoint = ''/users'', http_method = ''GET'', response_code = Some 200,
            error_message = em1, request_headers = rq1, response_headers = rs1,
            validation_errors = ve1\<rparr>
           MetricsCollector_init))
     = Inr \<lparr>m_total_tests = 2, m_passed_tests = 1, m_failed_tests = 1, m_error_tests = 0,
            m_success_rate = 50, m_total_execution_time = 2,
            m_average_response_times = [(''GET /users'', 1)],
            m_status_code_distribution = [(200, 1), (500, 1)]\<rparr>"
proof -
  have e: "\<bar>m\<bar> < 2 ^ 53 \<Longrightarrow> k \<le> 1074 \<Longrightarrow> rnd (of_int m / 2 ^ k) = of_int m / 2 ^ k"
    for m :: int and k :: nat
    using assms unfolding exact_on_dyadics_def by blast
  have half: "rnd (1 / 2) = 1 / 2" using e [of 1 1] by simp
  have two: "rnd 2 = 2" using e [of 2 0] by simp
  have one: "rnd 1 = 1" using e [of 1 0] by simp
  have fifty: "rnd 50 = 50" using e [of 50 0] by simp
  show ?thesis
    by (simp add: get_metrics_def success_rate_def truediv_def py_sum_def add_result_def
        record_time_def record_code_def count_status_def dict_has_def dict_get_def
        MetricsCollector_init_def Let_def half two one fifty)
qed

theorem scenario_snapshot_witness:
  "exact_on_dyadics (\<lambda>x. x) \<and>
   get_metrics (\<lambda>x. x)
     (add_result (\<lambda>x. x)
        \<lparr>test_name = ''t2'', test_class = ''TestExampleAPI'', status = ''FAILED'',
         execution_time = 3 / 2,
         timestamp = (), endpoint = ''/users'', http_method = ''GET'', response_code = Some 500,
         error_message = Some ''bad field'', request_headers = None, response_headers = None,
         validation_errors = Some [''bad field'']\<rparr>
        (add_result (\<lambda>x. x)
           \<lparr>test_name = ''t1'', test_class = ''TestExampleAPI'', status = ''SUCCESS'',
            execution_time = 1 / 2,
            timestamp = (), endpoint = ''/users'', http_method = ''GET'', response_code = Some 200,
            error_message = None, request_headers = None, response_headers = None,
            validation_errors = None\<rparr>
           MetricsCollector_init))
     = Inr \<lparr>m_total_tests = 2, m_passed_tests = 1, m_failed_tests = 1, m_error_tests = 0,
            m_success_rate = 50, m_total_execution_time = 2,
            m_average_response_times = [(''GET /users'', 1)],
            m_status_code_distribution = [(200, 1), (500, 1)]\<rparr>"
proof -
  have h: "exact_on_dyadics (\<lambda>x. x)" by (simp add: exact_on_dyadics_def)
  show ?thesis using h scenario_snapshot [OF h] by simp
qed

subsection \<open>Totals after the consumer has drained\<close>

lemma ingest_all_counts:
  "total_tests (foldl (\<lambda>m r. add_result rnd r m) m rs) = total_tests m + int (length rs)
   \<and> passed_tests (foldl (\<lambda>m r. add_result rnd r m) m rs)
       + failed_tests (foldl (\<lambda>m r. add_result rnd r m) m rs)
       + error_tests (foldl (\<lambda>m r. add_result rnd r m) m rs)
     = passed_tests m + failed_tests m + error_tests m + int (length rs)"
  by (induction rs arbitrary: m) (simp_all add: add_result_total add_result_counters)

lemma ingest_all_times_nonempty:
  "times_nonempty m \<Longrightarrow> times_nonempty (foldl (\<lambda>m r. add_result rnd r m) m rs)"
  by (induction rs arbitrary: m) (simp_all add: add_result_times_nonempty)

lemma get_metrics_returns:
  assumes "times_nonempty m"
  shows "\<exists>s. get_metrics rnd m = Inr s \<and> m_total_tests s = total_tests m
           \<and> m_passed_tests s = passed_tests m \<and> m_failed_tests s = failed_tests m
           \<and> m_error_tests s = error_tests m"
proof -
  obtain avgs where "average_response_times rnd (response_times m) = Inr avgs"
    using average_response_times_ok assms unfolding times_nonempty_def by blast
  then show ?thesis
    by (cases "total_tests m > 0") (simp_all add: get_metrics_def success_rate_cases)
qed

text \<open>
  Claim C9. Whatever the interleaving of \<open>N\<close> submissions with the consumer's passes,
  once \<open>__del__\<close> has set the stop event and joined the worker, the queue is empty, the
  snapshot is returned, its total is \<open>N\<close> and passed + failed + error is \<open>N\<close>.
  Each \<open>add_result\<close> adds one to the total and one to exactly one of the three
  counters, chosen by the status.
\<close>

theorem totals_after_drain:
  "(\<exists>w s. ReportGenerator_del rnd
             (interleave (process_result rnd) es (worker_init (ReportGenerator_init dir))) = Some w
        \<and> queue w = []
        \<and> get_metrics rnd (metrics (target w)) = Inr s
        \<and> m_total_tests s = int (length (puts es))
        \<and> m_passed_tests s + m_failed_tests s + m_error_tests s = int (length (puts es)))
   \<and> total_tests (add_result rnd r m) = total_tests m + 1
   \<and> (passed_tests (add_result rnd r m), failed_tests (add_result rnd r m),
        error_tests (add_result rnd r m))
      = (if status r = ''SUCCESS''
         then (passed_tests m + 1, failed_tests m, error_tests m)
         else if status r = ''FAILED''
         then (passed_tests m, failed_tests m + 1, error_tests m)
         else (passed_tests m, failed_tests m, error_tests m + 1))"
proof -
  let ?m = "foldl (\<lambda>m r. add_result rnd r m) MetricsCollector_init (puts es)"
  have run: "ReportGenerator_del rnd
      (interleave (process_result rnd) es (worker_init (ReportGenerator_init dir)))
      = Some \<lparr>queue = [], stop_event = True,
          target = \<lparr>output_dir = dir, results = puts es, metrics = ?m\<rparr>\<rparr>"
    by (simp add: ReportGenerator_del_def process_queue_def stopped_loop_drains
        foldl_process_result ReportGenerator_init_def)
  have "times_nonempty MetricsCollector_init"
    by (simp add: times_nonempty_def MetricsCollector_init_def)
  then have "times_nonempty ?m" by (rule ingest_all_times_nonempty)
  then obtain s where s: "get_metrics rnd ?m = Inr s" "m_total_tests s = total_tests ?m"
      "m_passed_tests s = passed_tests ?m" "m_failed_tests s = failed_tests ?m"
      "m_error_tests s = error_tests ?m"
    using get_metrics_returns by blast
  have counts: "total_tests ?m = int (length (puts es))"
      "passed_tests ?m + failed_tests ?m + error_tests ?m = int (length (puts es))"
    using ingest_all_counts [of rnd MetricsCollector_init "puts es"]
    by (simp_all add: MetricsCollector_init_def)
  have first: "\<exists>w s. ReportGenerator_del rnd
             (interleave (process_result rnd) es (worker_init (ReportGenerator_init dir))) = Some w
        \<and> queue w = []
        \<and> get_metrics rnd (metrics (target w)) = Inr s
        \<and> m_total_tests s = int (length (puts es))
        \<and> m_passed_tests s + m_failed_tests s + m_error_tests s = int (length (puts es))"
    using run s counts by simp
  show ?thesis
    using first by (simp add: add_result_total add_result_counters)
qed

subsection \<open>The log writer\<close>

lemma dirname_no_slash: "CHR ''/'' \<notin> set p \<Longrightarrow> dirname p = []"
proof -
  assume "CHR ''/'' \<notin> set p"
  then have "dropWhile (\<lambda>c. c \<noteq> CHR ''/'') (rev p) = []" by auto
  then show ?thesis by (simp add: dirname_def)
qed

lemma write_to_file_no_directory:
  "dirname log_file = [] \<Longrightarrow>
     write_to_file log_file content s =
       print ''Error writing to log file: [Errno 2] No such file or directory'' s"
  by (simp add: write_to_file_def makedirs_def report_io_error_def)

text \<open>
  Claim C2, at the default log file \<open>api_logs.txt\<close>. The path has no directory part,
  so \<open>os.makedirs\<close> is called on the empty path and raises; the error is printed and
  nothing is written: no file changes.
\<close>

theorem write_to_file_default_path:
  "files (write_to_file ''api_logs.txt'' content s) = files s
   \<and> stdout (write_to_file ''api_logs.txt'' content s)
       = stdout s @ [''Error writing to log file: [Errno 2] No such file or directory'']"
proof -
  have "dirname ''api_logs.txt'' = []" by (rule dirname_no_slash) simp
  then show ?thesis by (simp add: write_to_file_no_directory print_def)
qed

subsection \<open>export_csv\<close>

lemma writerow_asdict_raises:
  "writerow path fieldnames (dict_set ''timestamp'' v (asdict r)) s
     = Inl (ValueError ''dict contains fields not in fieldnames'')"
  by (simp add: writerow_def dict_to_list_def asdict_def fieldnames_def)

lemma write_results_nonempty:
  "write_results isoformat path (r # rs) s
     = (Some (ValueError ''dict contains fields not in fieldnames''), s)"
  by (simp add: writerow_asdict_raises)

lemma writeheader_row:
  "writeheader path fieldnames s = append_file path [map CStr fieldnames] s"
  by (simp add: writeheader_def writerow_def dict_to_list_def fieldnames_def dict_get_def)

text \<open>
  A history that is not empty: the first \<open>writerow\<close> raises, whatever the file system
  and the outcome, so \<open>export_csv\<close> returns no path.
\<close>

lemma export_csv_nonempty_raises:
  "fst (export_csv isoformat (g\<lparr>results := r # rs\<rparr>) filename s) \<noteq> Inr path"
  by (simp add: export_csv_def writerow_asdict_raises Let_def split: sum.splits)

text \<open>
  Claim C1, at a history of one outcome, the default directory and file name and an
  empty file system. The directory and the file are created and the header row is
  written; then \<open>writerow\<close> raises \<open>ValueError\<close>, because \<open>asdict\<close> has the keys
  \<open>request_headers\<close>, \<open>response_headers\<close> and \<open>validation_errors\<close>, which are no
  field names. No row of the outcome is written and no path is returned.
\<close>

theorem export_csv_one_outcome:
  "export_csv isoformat \<lparr>output_dir = ''reports'', results = [r], metrics = m\<rparr>
       ''test_report.csv'' \<lparr>files = Map.empty, dirs = {}, stdout = []\<rparr>
     = (Inl (ValueError ''dict contains fields not in fieldnames''),
        \<lparr>files = [''reports/test_report.csv'' \<mapsto> [map CStr fieldnames]],
         dirs = {''reports''}, stdout = []\<rparr>)"
proof -
  have d: "dirname ''reports/test_report.csv'' = ''reports''"
    by (simp add: dirname_def)
  show ?thesis
    by (simp add: export_csv_def writerow_asdict_raises writeheader_row Let_def
        makedirs_def path_join_def open_truncate_def open_check_def append_file_def d)
qed

text \<open>With an empty history the file holds the header row and the path is returned.\<close>

lemma open_check_files [simp]: "open_check p (s\<lparr>files := f\<rparr>) = open_check p s"
  by (simp add: open_check_def)

lemma export_csv_empty_history:
  assumes "makedirs (output_dir g) s = Inr s1"
    and "open_check (path_join (output_dir g) filename) s1 = None"
    and "results g = []"
  shows "export_csv isoformat g filename s
     = (Inr (path_join (output_dir g) filename),
        s1\<lparr>files := (files s1)(path_join (output_dir g) filename \<mapsto> [map CStr fieldnames])\<rparr>)"
  using assms
  by (simp add: export_csv_def writeheader_row Let_def open_truncate_def append_file_def)


subsection \<open>Masking of headers\<close>






















subsection \<open>Masking of body fields\<close>

text \<open>
  On a dict with distinct keys, assigning the marker to a key that is present
  replaces the value of that one field and keeps the order.
\<close>

lemma mask_key_map:
  assumes "distinct (map fst d)"
  shows "mask_key d k = map (\<lambda>kv. (fst kv, if fst kv = k then JStr ''*****'' else snd kv)) d"
proof -
  have "dict_has k d \<Longrightarrow> distinct (map fst d) \<Longrightarrow>
      dict_set k v d = map (\<lambda>kv. (fst kv, if fst kv = k then v else snd kv)) d" for v :: json and d
  proof (induction d)
    case Nil
    then show ?case by (simp add: dict_has_def)
  next
    case (Cons a d)
    show ?case
    proof (cases "fst a = k")
      case True
      then have "k \<notin> fst ` set d" using Cons.prems(2) by auto
      then have "map (\<lambda>kv. (fst kv, if fst kv = k then v else snd kv)) d = d"
        by (induction d) auto
      with True show ?thesis by (cases a) simp
    next
      case False
      then have "dict_has k d" using Cons.prems(1) by (auto simp: dict_has_def)
      with False Cons show ?thesis by (cases a) simp
    qed
  qed
  moreover have "\<not> dict_has k d \<Longrightarrow>
      map (\<lambda>kv. (fst kv, if fst kv = k then JStr ''*****'' else snd kv)) d = d"
    by (induction d) (auto simp: dict_has_def)
  ultimately show ?thesis using assms by (simp add: mask_key_def)
qed

lemma mask_loop_map:
  assumes "distinct (map fst d)"
  shows "foldl mask_key d [''password'', ''token'', ''api_key''] = map masked_field d"
proof -
  let ?m = "\<lambda>k kv. (fst kv, if fst kv = k then JStr ''*****'' else snd kv)"
  have keys: "map fst (map (?m k) d') = map fst d'" for k and d' :: "(string \<times> json) list"
    by (induction d') auto
  have 1: "mask_key d ''password'' = map (?m ''password'') d"
    using assms by (rule mask_key_map)
  have 2: "mask_key (map (?m ''password'') d) ''token'' = map (?m ''token'') (map (?m ''password'') d)"
    by (rule mask_key_map) (simp only: keys assms)
  have 3: "mask_key (map (?m ''token'') (map (?m ''password'') d)) ''api_key''
      = map (?m ''api_key'') (map (?m ''token'') (map (?m ''password'') d))"
    by (rule mask_key_map) (simp only: keys assms)
  have "map (?m ''api_key'') (map (?m ''token'') (map (?m ''password'') d)) = map masked_field d"
    by (auto simp: masked_field_def)
  moreover have "foldl mask_key d [''password'', ''token'', ''api_key'']
      = mask_key (mask_key (mask_key d ''password'') ''token'') ''api_key''"
    by simp
  ultimately show ?thesis by (simp only: 1 2 3)
qed

text \<open>
  Claim C4, amended. For a body that is a non-empty dict, the printed body is the JSON
  text of the dict in which every top-level field named \<open>password\<close>, \<open>token\<close> or
  \<open>api_key\<close> has the marker as its value and every other field is unchanged.
\<close>

theorem top_level_fields_masked:
  assumes "distinct (map fst d)" and "d \<noteq> []"
  shows "format_body (JDict d) = json_dumps (JDict (map masked_field d))
       \<and> body_part (JDict d) = ''Body: '' @ json_dumps (JDict (map masked_field d)) @ newline"
proof -
  have "format_body (JDict d)
      = json_dumps (JDict (foldl mask_key d [''password'', ''token'', ''api_key'']))"
    using assms(2) by (simp add: format_body_def del: foldl_Cons)
  then have "format_body (JDict d) = json_dumps (JDict (map masked_field d))"
    by (simp only: mask_loop_map [OF assms(1)])
  then show ?thesis using assms(2) by (simp add: body_part_def)
qed

theorem top_level_fields_masked_witness:
  "format_body (JDict [(''username'', JStr ''testuser''), (''password'', JStr ''secretpass123'')])
     = json_dumps (JDict [(''username'', JStr ''testuser''), (''password'', JStr ''*****'')])"
  using top_level_fields_masked
    [of "[(''username'', JStr ''testuser''), (''password'', JStr ''secretpass123'')]"]
  by (simp add: masked_field_def)

text \<open>
  Claim C4 as stated fails: a \<open>password\<close> field of a dict inside a list, or of a dict
  nested in a dict, is printed with its value.
\<close>

theorem nested_fields_not_masked:
  "sublist ''hunter2''
     (request_entry ''2024-01-01T00:00:00'' ''POST'' ''http://localhost:8000/users'' None
        (JList [JDict [(''password'', JStr ''hunter2'')]]))
   \<and> sublist ''hunter2''
     (request_entry ''2024-01-01T00:00:00'' ''POST'' ''http://localhost:8000/users'' None
        (JDict [(''user'', JDict [(''password'', JStr ''hunter2'')])]))"
  by (simp add: request_entry_def headers_part_def body_part_def format_body_def json_dumps_def
      newline_indent_def newline_def encode_string_def escape_char_def mask_key_def dict_has_def
      sublist_Cons_right eval_nat_numeral)

subsection \<open>api_test: failures accumulate\<close>

lemma str_of_int_200: "str_of_int 200 = ''200''"
  by (simp add: str_of_int_def str_of_nat.simps digit_char_def)

lemma str_of_int_404: "str_of_int 404 = ''404''"
  by (simp add: str_of_int_def str_of_nat.simps digit_char_def)

text \<open>
  Both checks run: the status check fails and adds its message, and the schema check
  still runs and adds its own.
\<close>

lemma perform_validations_status_and_schema:
  assumes "expected_status cfg \<noteq> r_status_code resp"
    and "expected_schema cfg = Some schema" and "truthy schema"
    and "validate_json_schema lib resp schema = Inl (AssertionError schema_msg)"
    and "expected_headers cfg = None" and "expected_content cfg = None"
  shows "perform_validations lib cfg resp =
     Inr [''Expected status code '' @ str_of_int (expected_status cfg) @ '', got ''
            @ str_of_int (r_status_code resp),
          schema_msg]"
  using assms
  by (simp add: perform_validations_def and_then_def check_status_def check_schema_def
      check_headers_def check_content_def validate_status_code_def)

text \<open>
  Claim C6. The test is configured with a status check expecting 200 and a schema
  check, and with no header or content check; the response has status 404 and a JSON
  body that the schema validator rejects. Then both checks run, the outcome submitted
  to the reporter has status FAILED and exactly two messages in
  \<open>validation_errors\<close>, the status mismatch and then the schema mismatch, and the
  wrapper raises the assertion error made of both.
\<close>

theorem failed_checks_accumulate:
  assumes "expected_status cfg = 200" and "r_status_code resp = 404"
    and "expected_schema cfg = Some schema" and "truthy schema"
    and "r_json resp = Some body"
    and "jsonschema_validate lib body schema = ValidationError reason"
    and "expected_headers cfg = None" and "expected_content cfg = None"
  shows "wrapper rnd lib cfg True func_name class_name now start_time end_time (Inr resp) reporter
     = (Inl (AssertionError (''Expected status code 200, got 404'' @ newline
                @ ''JSON schema validation failed: '' @ reason)),
        put \<lparr>test_name = func_name, test_class = class_name, status = ''FAILED'',
             execution_time = rnd (end_time - start_time), timestamp = now,
             endpoint = cfg_endpoint cfg, http_method = cfg_method cfg,
             response_code = Some 404,
             error_message = Some (''Expected status code 200, got 404'' @ newline
                @ ''JSON schema validation failed: '' @ reason),
             request_headers = Some (r_request_headers resp),
             response_headers = Some (r_headers resp),
             validation_errors = Some [''Expected status code 200, got 404'',
                ''JSON schema validation failed: '' @ reason]\<rparr> reporter)"
proof -
  have schema: "validate_json_schema lib resp schema
      = Inl (AssertionError (''JSON schema validation failed: '' @ reason))"
    using assms(5,6) by (simp add: validate_json_schema_def)
  have "expected_status cfg \<noteq> r_status_code resp" using assms(1,2) by simp
  then have "perform_validations lib cfg resp =
     Inr [''Expected status code '' @ str_of_int (expected_status cfg) @ '', got ''
            @ str_of_int (r_status_code resp),
          ''JSON schema validation failed: '' @ reason]"
    using assms(3,4) schema assms(7,8) by (rule perform_validations_status_and_schema)
  then have errs: "perform_validations lib cfg resp =
     Inr [''Expected status code 200, got 404'', ''JSON schema validation failed: '' @ reason]"
    by (simp add: assms(1,2) str_of_int_200 str_of_int_404)
  show ?thesis
    by (simp add: wrapper_def after_response_def errs on_exception_def Let_def assms(2))
qed

theorem failed_checks_accumulate_witness:
  "wrapper (\<lambda>x. x)
     \<lparr>jsonschema_validate = (\<lambda>instance schema. ValidationError ''id is a required property''),
      py_repr = json_dumps\<rparr>
     \<lparr>cfg_endpoint = ''/users'', cfg_method = ''GET'', expected_status = 200,
      expected_schema = Some (JDict [(''required'', JList [JStr ''id''])]),
      expected_headers = None, expected_content = None\<rparr>
     True ''test_get_user'' ''TestExampleAPI'' () 10 12
     (Inr \<lparr>r_status_code = 404, r_headers = [], r_json = Some (JDict [(''detail'', JStr ''Not found'')]),
           r_request_headers = []\<rparr>)
     (worker_init ())
   = (Inl (AssertionError (''Expected status code 200, got 404'' @ newline
              @ ''JSON schema validation failed: id is a required property'')),
      \<lparr>queue = [\<lparr>test_name = ''test_get_user'', test_class = ''TestExampleAPI'', status = ''FAILED'',
             execution_time = 2, timestamp = (),
             endpoint = ''/users'', http_method = ''GET'',
             response_code = Some 404,
             error_message = Some (''Expected status code 200, got 404'' @ newline
                @ ''JSON schema validation failed: id is a required property''),
             request_headers = Some [],
             response_headers = Some [],
             validation_errors = Some [''Expected status code 200, got 404'',
                ''JSON schema validation failed: id is a required property'']\<rparr>],
       stop_event = False, target = ()\<rparr>)"
  using failed_checks_accumulate [where rnd = "\<lambda>x. x"
      and lib = "\<lparr>jsonschema_validate = (\<lambda>instance schema. ValidationError ''id is a required property''),
      py_repr = json_dumps\<rparr>"
      and cfg = "\<lparr>cfg_endpoint = ''/users'', cfg_method = ''GET'', expected_status = 200,
      expected_schema = Some (JDict [(''required'', JList [JStr ''id''])]),
      expected_headers = None, expected_content = None\<rparr>"
      and resp = "\<lparr>r_status_code = 404, r_headers = [], r_json = Some (JDict [(''detail'', JStr ''Not found'')]),
           r_request_headers = []\<rparr>"
      and schema = "JDict [(''required'', JList [JStr ''id''])]"
      and body = "JDict [(''detail'', JStr ''Not found'')]"
      and reason = "''id is a required property''"
      and func_name = "''test_get_user''" and class_name = "''TestExampleAPI''"
      and now = "()" and start_time = 10 and end_time = 12 and reporter = "worker_init ()"]
  by (simp add: put_def worker_init_def)

subsection \<open>The caller's headers and body are not changed\<close>

text \<open>
  An assignment through the address of the copy, which lies beyond the objects that
  existed before the call, changes none of them.
\<close>

lemma assign_marker_frame:
  assumes "length h0 \<le> a" and "take (length h0) h = h0"
  shows "take (length h0) (assign_marker a h key) = h0"
  using assms by (simp add: assign_marker_def split: option.splits obj.splits)

lemma assign_loop_frame:
  assumes "length h0 \<le> a" and "take (length h0) h = h0"
  shows "take (length h0) (foldl (assign_marker a) h keys) = h0"
  using assms(2)
proof (induction keys arbitrary: h)
  case Nil
  then show ?case by simp
next
  case (Cons k keys)
  have "take (length h0) (assign_marker a h k) = h0"
    using assms(1) Cons.prems by (rule assign_marker_frame)
  then show ?case using Cons.IH by simp
qed

lemma format_body_store_frame:
  "take (length h) (snd (format_body_store h body)) = h"
proof -
  have copy: "take (length h)
      (foldl (assign_marker (length h)) (h @ [ODict d]) [''password'', ''token'', ''api_key'']) = h"
    for d
    by (rule assign_loop_frame) simp_all
  show ?thesis
    unfolding format_body_store_def alloc_def
    using copy
    by (auto simp: Let_def simp del: foldl_Cons split: pval.splits option.splits)
qed

lemma finish_entry_frame:
  "take (length h) (fst (snd (finish_entry first_lines closing headers body h w))) = h"
  using format_body_store_frame [of h body]
  by (auto simp: finish_entry_def Let_def split: prod.splits sum.splits)

text \<open>
  Claim C10. After \<open>log_request\<close> and after \<open>log_response\<close>, whether they return or
  \<open>json.dumps\<close> raises, every object that was in the store before the call is what it
  was: the headers dict, the body and all that is reachable from them. The store has
  at most grown by the copy of the body.
\<close>

theorem caller_objects_unchanged:
  "take (length h) (fst (snd (log_request_store stamp meth url headers body h w))) = h
   \<and> take (length h)
       (fst (snd (log_response_store stamp duration_ms status_code headers body h w))) = h"
  by (simp add: log_request_store_def log_response_store_def finish_entry_frame)

text \<open>
  The masking does take place, on the copy: for a dict body the store grows by one
  dict, the body's items with the marker assigned to the three keys.
\<close>

lemma format_body_store_dict:
  assumes "deref h a = Some (ODict d)" and "d \<noteq> []"
  shows "snd (format_body_store h (VRef a))
     = h @ [ODict (foldl (\<lambda>d key. if dict_has key d then dict_set key (VStr ''*****'') d else d)
                    d [''password'', ''token'', ''api_key''])]"
proof -
  have step: "assign_marker (length h) (h @ [ODict d']) key
      = h @ [ODict (if dict_has key d' then dict_set key (VStr ''*****'') d' else d')]"
    for d' key
    by (simp add: assign_marker_def deref_def)
  show ?thesis
    using assms
    by (simp add: format_body_store_def truthy_store_def dict_items_def alloc_def step Let_def)
qed

subsection \<open>Shutdown drains the queue\<close>

text \<open>
  Entries are put while the consumer runs, in any interleaving; then the stop event is
  set and the thread is joined. The loop returns, the queue is empty, and every entry
  put has been handled once, in the order put: the report generator's \<open>results\<close> is
  the list of the submitted outcomes, and the log writer has called \<open>_write_to_file\<close>
  once per entry.
\<close>

lemma consumer_handles_each_entry_once:
  "ReportGenerator_del rnd
       (interleave (process_result rnd) es (worker_init (ReportGenerator_init dir)))
     = Some \<lparr>queue = [], stop_event = True,
         target = \<lparr>output_dir = dir, results = puts es,
           metrics = foldl (\<lambda>m r. add_result rnd r m) MetricsCollector_init (puts es)\<rparr>\<rparr>
   \<and> APILogger_del log_file (interleave (write_to_file log_file) ls (worker_init s))
     = Some \<lparr>queue = [], stop_event = True,
         target = foldl (\<lambda>s entry. write_to_file log_file entry s) s (puts ls)\<rparr>"
  by (simp add: ReportGenerator_del_def process_queue_def APILogger_del_def log_writer_def
      stopped_loop_drains foldl_process_result ReportGenerator_init_def)

text \<open>A log file named without a directory part receives none of the entries.\<close>

lemma default_path_writes_nothing:
  "dirname log_file = [] \<Longrightarrow>
     files (foldl (\<lambda>s entry. write_to_file log_file entry s) s entries) = files s"
  by (induction entries arbitrary: s) (simp_all add: write_to_file_no_directory print_def)

text \<open>
  Claim C5, at the default log file \<open>api_logs.txt\<close> with three entries enqueued before
  the stop event. The loop drains the queue and returns, but each \<open>_write_to_file\<close>
  fails on \<open>os.makedirs\<close> of the empty path and prints an error: three errors are
  printed, no file changes, and the log file holds none of the three entries.
\<close>

theorem default_log_file_loses_entries:
  "\<exists>s'. APILogger_del ''api_logs.txt''
            (interleave (write_to_file ''api_logs.txt'')
               [Put ''first'', Put ''second'', Put ''third''] (worker_init s))
          = Some \<lparr>queue = [], stop_event = True, target = s'\<rparr>
        \<and> files s' = files s
        \<and> length (stdout s') = length (stdout s) + 3"
proof -
  have d: "dirname ''api_logs.txt'' = []" by (rule dirname_no_slash) simp
  let ?ls = "[Put ''first'', Put ''second'', Put ''third'']"
  let ?s' = "foldl (\<lambda>s entry. write_to_file ''api_logs.txt'' entry s) s (puts ?ls)"
  have "APILogger_del ''api_logs.txt''
            (interleave (write_to_file ''api_logs.txt'') ?ls (worker_init s))
          = Some \<lparr>queue = [], stop_event = True, target = ?s'\<rparr>"
    using consumer_handles_each_entry_once [where log_file = "''api_logs.txt''" and ls = ?ls
        and s = s]
    by blast
  moreover have "files ?s' = files s" using d by (rule default_path_writes_nothing)
  moreover have "length (stdout ?s') = length (stdout s) + 3"
    by (simp add: write_to_file_no_directory [OF d] print_def)
  ultimately show ?thesis by blast
qed

end
